theory Spec2Isabelle
  imports Main "HOL-Library.Sublist"
begin

section \<open>Go standard library functions the code calls\<close>

text \<open>
  Go strings are byte sequences; they are modelled as \<^typ>\<open>string\<close> (a list of
  8-bit characters). The functions of this section are not code of the repository:
  they are the functions of Go's \<^verbatim>\<open>strings\<close>, \<^verbatim>\<open>strconv\<close> and
  \<^verbatim>\<open>path/filepath\<close> packages (Unix build) that the repository calls, written out
  so that every model below computes.
\<close>

subsection \<open>White space: \<^verbatim>\<open>strings.TrimSpace\<close> and \<^verbatim>\<open>strings.Fields\<close>\<close>

text \<open>
  \<^verbatim>\<open>unicode.IsSpace\<close> holds of the ASCII characters tab, line feed, vertical tab,
  form feed, carriage return and space, and of U+0085, U+00A0, U+1680, U+2000..U+200A,
  U+2028, U+2029, U+202F, U+205F and U+3000. The list gives their UTF-8 encodings.
  Every encoding starts with an ASCII byte or a UTF-8 lead byte, and a lead byte is
  never consumed as part of another rune, so a white-space rune stands at a position
  of the text exactly when one of these byte sequences does.
\<close>

definition white_space_runes :: "string list" where
  "white_space_runes =
     [[CHR 0x09], [CHR 0x0A], [CHR 0x0B], [CHR 0x0C], [CHR 0x0D], [CHR 0x20],
      [CHR 0xC2, CHR 0x85], [CHR 0xC2, CHR 0xA0],
      [CHR 0xE1, CHR 0x9A, CHR 0x80],
      [CHR 0xE2, CHR 0x80, CHR 0x80], [CHR 0xE2, CHR 0x80, CHR 0x81],
      [CHR 0xE2, CHR 0x80, CHR 0x82], [CHR 0xE2, CHR 0x80, CHR 0x83],
      [CHR 0xE2, CHR 0x80, CHR 0x84], [CHR 0xE2, CHR 0x80, CHR 0x85],
      [CHR 0xE2, CHR 0x80, CHR 0x86], [CHR 0xE2, CHR 0x80, CHR 0x87],
      [CHR 0xE2, CHR 0x80, CHR 0x88], [CHR 0xE2, CHR 0x80, CHR 0x89],
      [CHR 0xE2, CHR 0x80, CHR 0x8A],
      [CHR 0xE2, CHR 0x80, CHR 0xA8], [CHR 0xE2, CHR 0x80, CHR 0xA9],
      [CHR 0xE2, CHR 0x80, CHR 0xAF], [CHR 0xE2, CHR 0x81, CHR 0x9F],
      [CHR 0xE3, CHR 0x80, CHR 0x80]]"

text \<open>The number of bytes of the white-space rune a text starts with (0: none).\<close>

definition leadingSpace :: "string \<Rightarrow> nat" where
  "leadingSpace s =
     (if s = [] then 0
      else case find (\<lambda>r. prefix r s) white_space_runes of
             None \<Rightarrow> 0
           | Some r \<Rightarrow> length r)"

text \<open>The number of bytes of the white-space rune a text ends with (0: none).\<close>

definition trailingSpace :: "string \<Rightarrow> nat" where
  "trailingSpace s =
     (if s = [] then 0
      else case find (\<lambda>r. suffix r s) white_space_runes of
             None \<Rightarrow> 0
           | Some r \<Rightarrow> length r)"

function TrimLeftSpace :: "string \<Rightarrow> string" where
  "TrimLeftSpace s =
     (if leadingSpace s = 0 then s else TrimLeftSpace (drop (leadingSpace s) s))"
  by pat_completeness auto
termination
  by (relation "measure length") (auto simp: leadingSpace_def split: if_splits)

function TrimRightSpace :: "string \<Rightarrow> string" where
  "TrimRightSpace s =
     (if trailingSpace s = 0 then s
      else TrimRightSpace (take (length s - trailingSpace s) s))"
  by pat_completeness auto
termination
  by (relation "measure length") (auto simp: trailingSpace_def split: if_splits)

definition TrimSpace :: "string \<Rightarrow> string" where
  "TrimSpace s = TrimRightSpace (TrimLeftSpace s)"

text \<open>
  \<^verbatim>\<open>strings.Fields\<close>: the maximal runs of bytes between white-space runes.
  \<open>cur\<close> is the field being read.
\<close>

function FieldsFrom :: "string \<Rightarrow> string \<Rightarrow> string list" where
  "FieldsFrom cur s =
     (if s = [] then (if cur = [] then [] else [cur])
      else if leadingSpace s = 0 then FieldsFrom (cur @ [hd s]) (tl s)
      else (if cur = [] then [] else [cur]) @ FieldsFrom [] (drop (leadingSpace s) s))"
  by pat_completeness auto
termination
  by (relation "measure (\<lambda>(cur, s). length s)") (auto simp: leadingSpace_def split: if_splits)

definition Fields :: "string \<Rightarrow> string list" where
  "Fields s = FieldsFrom [] s"

subsection \<open>\<^verbatim>\<open>strconv.Atoi\<close> (64-bit \<^verbatim>\<open>int\<close>)\<close>

datatype NumError = ErrSyntax | ErrRange

definition isDigit :: "char \<Rightarrow> bool" where
  "isDigit c = (48 \<le> (of_char c :: nat) \<and> (of_char c :: nat) \<le> 57)"

definition decimal :: "string \<Rightarrow> int" where
  "decimal ds = foldl (\<lambda>n c. 10 * n + (int (of_char c) - 48)) 0 ds"

text \<open>
  An optional sign and then one or more decimal digits; anything else is a syntax
  error with value 0. A value outside the 64-bit range is a range error whose value
  is the nearest bound.
\<close>

definition Atoi :: "string \<Rightarrow> int \<times> NumError option" where
  "Atoi s =
     (let neg = (s \<noteq> [] \<and> hd s = CHR ''-'');
          ds = (if s \<noteq> [] \<and> (hd s = CHR ''-'' \<or> hd s = CHR ''+'') then tl s else s)
      in if ds = [] \<or> \<not> list_all isDigit ds then (0, Some ErrSyntax)
         else if neg then
           (if decimal ds > 2 ^ 63 then (- (2 ^ 63), Some ErrRange) else (- decimal ds, None))
         else
           (if decimal ds \<ge> 2 ^ 63 then (2 ^ 63 - 1, Some ErrRange) else (decimal ds, None)))"

subsection \<open>\<^verbatim>\<open>path/filepath\<close> (Unix: the separator is \<open>/\<close>, no volume names)\<close>

definition IsPathSeparator :: "char \<Rightarrow> bool" where
  "IsPathSeparator c = (c = CHR ''/'')"

text \<open>
  \<^verbatim>\<open>filepath.Base\<close>: the empty path gives \<open>.\<close>; trailing separators are stripped;
  what follows the last separator is kept; a path of separators only gives \<open>/\<close>.
\<close>

definition Base :: "string \<Rightarrow> string" where
  "Base path =
     (if path = [] then ''.''
      else
        let stripped = rev (dropWhile IsPathSeparator (rev path));
            elem = rev (takeWhile (\<lambda>c. \<not> IsPathSeparator c) (rev stripped))
        in if elem = [] then ''/'' else elem)"

text \<open>\<^verbatim>\<open>strings.Split\<close> at a one-byte separator, and \<^verbatim>\<open>strings.Join\<close>.\<close>

fun Split :: "char \<Rightarrow> string \<Rightarrow> string list" where
  "Split sep [] = [[]]"
| "Split sep (c # cs) =
     (if c = sep then [] # Split sep cs
      else case Split sep cs of [] \<Rightarrow> [[c]] | p # ps \<Rightarrow> (c # p) # ps)"

fun JoinWith :: "string \<Rightarrow> string list \<Rightarrow> string" where
  "JoinWith sep [] = []"
| "JoinWith sep [p] = p"
| "JoinWith sep (p # q # ps) = p @ sep @ JoinWith sep (q # ps)"

text \<open>
  \<^verbatim>\<open>filepath.Clean\<close>, as a pass over the path's elements that keeps the elements
  of the result: empty elements and \<open>.\<close> are dropped, \<open>..\<close> removes the element before
  it, is dropped at the root and is kept at the start of a relative path.
\<close>

definition cleanStep :: "bool \<Rightarrow> string list \<Rightarrow> string \<Rightarrow> string list" where
  "cleanStep rooted kept e =
     (if e = [] \<or> e = ''.'' then kept
      else if e = ''..'' then
        (if kept \<noteq> [] \<and> last kept \<noteq> ''..'' then butlast kept
         else if rooted then kept
         else kept @ [e])
      else kept @ [e])"

definition Clean :: "string \<Rightarrow> string" where
  "Clean path =
     (if path = [] then ''.''
      else
        let rooted = IsPathSeparator (hd path);
            body = JoinWith ''/'' (foldl (cleanStep rooted) [] (Split CHR ''/'' path))
        in if rooted then CHR ''/'' # body
           else if body = [] then ''.'' else body)"

definition Join :: "string list \<Rightarrow> string" where
  "Join elems =
     (case dropWhile (\<lambda>e. e = []) elems of
        [] \<Rightarrow> []
      | es \<Rightarrow> Clean (JoinWith ''/'' es))"

definition Dir :: "string \<Rightarrow> string" where
  "Dir path = Clean (rev (dropWhile (\<lambda>c. \<not> IsPathSeparator c) (rev path)))"

section \<open>The persisted records (package config)\<close>

text \<open>
  A Go \<^verbatim>\<open>error\<close> is its message. A Go map is \<open>None\<close> when it is nil and a partial
  function otherwise; a pointer to a record is \<open>None\<close> when it is nil. A
  \<^verbatim>\<open>time.Time\<close> is a number.
\<close>

type_synonym error = string
type_synonym 'a gomap = "(string \<rightharpoonup> 'a) option"
type_synonym timestamp = int

record Experiment =
  Name :: string
  Repo :: string
  Path :: string
  Branch :: string
  Ticket :: string
  Created :: timestamp
  LastUsed :: timestamp

record ProjectRepo =
  ProjectRepo_Name :: string
  Source :: string

record Project =
  Project_Name :: string
  Project_Path :: string
  Project_Branch :: string
  Repos_of :: "ProjectRepo list"
  Project_Created :: timestamp
  Project_LastUsed :: timestamp

record Scratch =
  Scratch_Name :: string
  Scratch_Path :: string
  Scratch_Ticket :: string
  Scratch_Created :: timestamp
  Scratch_LastUsed :: timestamp

record State =
  Version :: int
  Experiments :: "Experiment option gomap"
  Projects :: "Project option gomap"
  Scratches :: "Scratch option gomap"

text \<open>
  \<^verbatim>\<open>Config.Repos\<close> is the registration mapping, name to path. \<^verbatim>\<open>config.Load\<close>
  replaces a nil map by an empty one before any command sees the configuration, so
  the mapping is a partial function here.
\<close>

record Config =
  BaseDir :: string
  Agent :: string
  AgentFlags :: "string list"
  Editor :: string
  AutoInit :: bool
  Repos :: "string \<rightharpoonup> string"
  RepoSettings :: "string \<rightharpoonup> string list"
  LastRepo :: string
  TmuxSplitDirection :: string

subsection \<open>The state document\<close>

text \<open>
  The bytes of the state file are modelled by what \<^verbatim>\<open>encoding/json\<close> reads in
  them: a text that is no JSON value or whose top-level value is not an object or
  \<^verbatim>\<open>null\<close> (with the decoder's error), the value \<^verbatim>\<open>null\<close>, or an object. An object is
  the list of its members in the order of the text; each member is tagged by the
  field of \<^verbatim>\<open>State\<close> its key selects (\<open>MOther\<close>: none), and its value is \<^verbatim>\<open>null\<close>, a
  value the field can take, or a JSON value of another type (with the decoder's
  error). A key may occur more than once.
\<close>

datatype 'a jvalue = JNull | JVal 'a | JMismatch error

datatype member =
    MVersion "int jvalue"
  | MExperiments "(string \<rightharpoonup> Experiment option) jvalue"
  | MProjects "(string \<rightharpoonup> Project option) jvalue"
  | MScratches "(string \<rightharpoonup> Scratch option) jvalue"
  | MOther

datatype document = Malformed error | DNull | DObject "member list"

datatype state_file = NotExist | Unreadable error | Contents document

section \<open>The world outside the process\<close>

text \<open>
  The program talks to git, the file system and the terminal. Each call that acts
  on them or asks them something is an event. A world holds the events performed so
  far, oldest first, and the environment, which says how a call turns out after a
  given history: the error it returned, if any, and the output it produced. It also
  holds the state files by path, the clock, the directory listings and the home
  directory. The environment is arbitrary, so a theorem about all worlds covers
  every behaviour of git, of the file system and of the user.
\<close>

datatype event =
    Git string "string list"  \<comment> \<open>\<^verbatim>\<open>exec.Command("git", args...)\<close> run with \<^verbatim>\<open>cmd.Dir\<close>\<close>
  | Prompt string  \<comment> \<open>\<^verbatim>\<open>promptui.Prompt{Label: ...}.Run()\<close>\<close>
  | Select string  \<comment> \<open>\<^verbatim>\<open>promptui.Select{Label: ...}.Run()\<close>\<close>
  | Getwd  \<comment> \<open>\<^verbatim>\<open>os.Getwd()\<close>\<close>
  | Stat string  \<comment> \<open>\<^verbatim>\<open>os.Stat(path)\<close>\<close>
  | MkdirAll string  \<comment> \<open>\<^verbatim>\<open>os.MkdirAll(path, 0755)\<close>\<close>
  | WriteFile string  \<comment> \<open>\<^verbatim>\<open>os.WriteFile(path, data, 0644)\<close>\<close>
  | RemoveAll string  \<comment> \<open>\<^verbatim>\<open>os.RemoveAll(path)\<close>\<close>
  | Remove string  \<comment> \<open>\<^verbatim>\<open>os.Remove(path)\<close>\<close>
  | ConfigSave Config  \<comment> \<open>\<^verbatim>\<open>cfg.Save()\<close>\<close>
  | CopyDir string string  \<comment> \<open>\<^verbatim>\<open>copyDir(src, dst)\<close>\<close>
  | InitRepo string  \<comment> \<open>\<^verbatim>\<open>InitRepo(path)\<close>\<close>
  | CopyGitignoredFiles string string
      \<comment> \<open>\<^verbatim>\<open>copyGitignoredFiles(cfg, srcRepo, dstPath)\<close>, and the same for a project\<close>
  | WriteJSON string  \<comment> \<open>\<^verbatim>\<open>writeJSON(path, metadata)\<close>\<close>
  | OpenEditor string string  \<comment> \<open>\<^verbatim>\<open>agent.OpenEditor(workdir, editor, opts)\<close>\<close>
  | Launch string string  \<comment> \<open>\<^verbatim>\<open>agent.NewAgent(agentCmd).Launch(workdir, opts)\<close>\<close>

record response =
  err :: "error option"  \<comment> \<open>\<open>None\<close>: the call returned a nil error\<close>
  out :: string  \<comment> \<open>the output or the answer of the call\<close>

record world =
  trace :: "event list"
  env :: "event list \<Rightarrow> event \<Rightarrow> response"
  files :: "string \<Rightarrow> state_file"
  clock :: "event list \<Rightarrow> timestamp"
  dirs :: "string \<Rightarrow> error + (string \<times> bool) list"
  home :: string

definition perform :: "event \<Rightarrow> world \<Rightarrow> response \<times> world" where
  "perform e w = (env w (trace w) e, w\<lparr>trace := trace w @ [e]\<rparr>)"

text \<open>\<^verbatim>\<open>time.Now()\<close>.\<close>

definition Now :: "world \<Rightarrow> timestamp" where
  "Now w = clock w (trace w)"

section \<open>Branch reconciliation (package git)\<close>

datatype BranchStatus = BranchNotFound | BranchLocalOnly | BranchRemoteOnly | BranchBoth

record BranchInfo =
  Status :: BranchStatus
  LocalAhead :: int
  RemoteBehind :: int
  Diverged :: bool

definition branchExistsLocal :: "string \<Rightarrow> string \<Rightarrow> world \<Rightarrow> bool \<times> world" where
  "branchExistsLocal repoPath branch w =
     (let (r, w1) = perform (Git repoPath
              [''show-ref'', ''--verify'', ''--quiet'', ''refs/heads/'' @ branch]) w
      in (err r = None, w1))"

definition branchExistsRemote :: "string \<Rightarrow> string \<Rightarrow> world \<Rightarrow> bool \<times> world" where
  "branchExistsRemote repoPath branch w =
     (let (r, w1) = perform (Git repoPath [''ls-remote'', ''--heads'', ''origin'', branch]) w
      in if err r \<noteq> None then (False, w1)
         else (length (TrimSpace (out r)) > 0, w1))"

definition getBranchDivergence ::
    "string \<Rightarrow> string \<Rightarrow> world \<Rightarrow> (int \<times> int \<times> bool) \<times> world" where
  "getBranchDivergence repoPath branch w =
     (let (r, w1) = perform (Git repoPath
              [''rev-list'', ''--left-right'', ''--count'', branch @ ''...origin/'' @ branch]) w
      in if err r \<noteq> None then ((0, 0, False), w1)
         else
           let parts = Fields (TrimSpace (out r))
           in if length parts = 2 then
                let localAhead = fst (Atoi (parts ! 0));
                    remoteAhead = fst (Atoi (parts ! 1))
                in ((localAhead, remoteAhead, localAhead > 0 \<and> remoteAhead > 0), w1)
              else ((0, 0, False), w1))"

definition CheckBranch :: "string \<Rightarrow> string \<Rightarrow> world \<Rightarrow> BranchInfo \<times> world" where
  "CheckBranch repoPath branch w =
     (let info = \<lparr>Status = BranchNotFound, LocalAhead = 0, RemoteBehind = 0, Diverged = False\<rparr>;
          (localExists, w1) = branchExistsLocal repoPath branch w;
          (remoteExists, w2) = branchExistsRemote repoPath branch w1
      in if localExists \<and> remoteExists then
           let ((la, rb, d), w3) = getBranchDivergence repoPath branch w2
           in (info\<lparr>Status := BranchBoth, LocalAhead := la, RemoteBehind := rb, Diverged := d\<rparr>, w3)
         else if localExists then (info\<lparr>Status := BranchLocalOnly\<rparr>, w2)
         else if remoteExists then (info\<lparr>Status := BranchRemoteOnly\<rparr>, w2)
         else (info, w2))"

definition Fetch :: "string \<Rightarrow> world \<Rightarrow> error option \<times> world" where
  "Fetch repoPath w =
     (let (r, w1) = perform (Git repoPath [''fetch'', ''origin'']) w in (err r, w1))"

definition hasOriginRemote :: "string \<Rightarrow> world \<Rightarrow> bool \<times> world" where
  "hasOriginRemote repoPath w =
     (let (r, w1) = perform (Git repoPath [''remote'', ''get-url'', ''origin'']) w
      in (err r = None, w1))"

definition GetDefaultBranch :: "string \<Rightarrow> world \<Rightarrow> string \<times> world" where
  "GetDefaultBranch repoPath w =
     (let (r, w1) = perform (Git repoPath [''symbolic-ref'', ''refs/remotes/origin/HEAD'']) w;
          parts = Split CHR ''/'' (TrimSpace (out r))
      in if err r = None \<and> length parts > 0 then (last parts, w1)
         else
           let (r2, w2) = perform (Git repoPath [''rev-parse'', ''--verify'', ''origin/main'']) w1
           in if err r2 = None then (''main'', w2) else (''master'', w2))"

definition CreateWorktreeNew ::
    "string \<Rightarrow> string \<Rightarrow> string \<Rightarrow> world \<Rightarrow> error option \<times> world" where
  "CreateWorktreeNew repoPath worktreePath branch w =
     (let (_, w1) = Fetch repoPath w;
          (info, w2) = CheckBranch repoPath branch w1
      in if Status info \<noteq> BranchNotFound then
           (Some (''branch '' @ [CHR 0x27] @ branch @ [CHR 0x27] @ '' already exists''), w2)
         else
           let (hasRemote, w3) = hasOriginRemote repoPath w2;
               (args, w4) =
                 (if hasRemote then
                    let (defaultBranch, w') = GetDefaultBranch repoPath w3
                    in ([''worktree'', ''add'', ''-b'', branch, worktreePath,
                         ''origin/'' @ defaultBranch], w')
                  else ([''worktree'', ''add'', ''-b'', branch, worktreePath, ''HEAD''], w3));
               (r, w5) = perform (Git repoPath args) w4
           in case err r of
                Some e \<Rightarrow> (Some (''failed to create worktree: '' @ out r @ '': '' @ e), w5)
              | None \<Rightarrow> (None, w5))"

definition CreateWorktreeFromBranch ::
    "string \<Rightarrow> string \<Rightarrow> string \<Rightarrow> world \<Rightarrow> error option \<times> world" where
  "CreateWorktreeFromBranch repoPath worktreePath branch w =
     (let (r, w1) = perform (Git repoPath [''worktree'', ''add'', worktreePath, branch]) w
      in case err r of
           Some e \<Rightarrow> (Some (''failed to create worktree: '' @ out r @ '': '' @ e), w1)
         | None \<Rightarrow> (None, w1))"

definition CreateWorktreeTrackRemote ::
    "string \<Rightarrow> string \<Rightarrow> string \<Rightarrow> world \<Rightarrow> error option \<times> world" where
  "CreateWorktreeTrackRemote repoPath worktreePath branch w =
     (let (r, w1) = perform (Git repoPath
              [''worktree'', ''add'', ''--track'', ''-b'', branch, worktreePath,
               ''origin/'' @ branch]) w
      in case err r of
           Some e \<Rightarrow> (Some (''failed to create worktree: '' @ out r @ '': '' @ e), w1)
         | None \<Rightarrow> (None, w1))"

text \<open>\<^verbatim>\<open>PreflightCheck\<close>: the loop over the repositories, then the function.\<close>

fun PreflightCheck_loop ::
    "string list \<Rightarrow> string \<Rightarrow> (string \<rightharpoonup> BranchInfo) \<Rightarrow> world
     \<Rightarrow> (string \<rightharpoonup> BranchInfo) \<times> world" where
  "PreflightCheck_loop [] branch results w = (results, w)"
| "PreflightCheck_loop (repo # repos) branch results w =
     (let (_, w1) = Fetch repo w;
          (info, w2) = CheckBranch repo branch w1
      in PreflightCheck_loop repos branch (results(repo \<mapsto> info)) w2)"

definition PreflightCheck ::
    "string list \<Rightarrow> string \<Rightarrow> world \<Rightarrow> (string \<rightharpoonup> BranchInfo) \<times> world" where
  "PreflightCheck repos branch w = PreflightCheck_loop repos branch Map.empty w"

definition GetRepoRoot :: "string \<Rightarrow> world \<Rightarrow> (error + string) \<times> world" where
  "GetRepoRoot path w =
     (let (r, w1) = perform (Git path [''rev-parse'', ''--show-toplevel'']) w
      in case err r of
           Some e \<Rightarrow> (Inl (''not a git repository: '' @ e), w1)
         | None \<Rightarrow> (Inr (TrimSpace (out r)), w1))"

definition IsGitRepo :: "string \<Rightarrow> world \<Rightarrow> bool \<times> world" where
  "IsGitRepo path w = (let (res, w1) = GetRepoRoot path w in (case res of Inl e \<Rightarrow> False | Inr root \<Rightarrow> True, w1))"

definition GetRepoName :: "string \<Rightarrow> string" where
  "GetRepoName repoPath = Base repoPath"

section \<open>Configuration and state (package config)\<close>

text \<open>\<^verbatim>\<open>os.UserHomeDir\<close> is \<open>home\<close> of the world (empty when it fails).\<close>

definition ExpandPath :: "world \<Rightarrow> string \<Rightarrow> string" where
  "ExpandPath w path =
     (if length path > 0 \<and> path ! 0 = CHR ''~'' then Join [home w, drop 1 path] else path)"

definition GetBaseDir :: "world \<Rightarrow> Config \<Rightarrow> string" where
  "GetBaseDir w c = ExpandPath w (BaseDir c)"

definition ExperimentsDir :: "world \<Rightarrow> Config \<Rightarrow> string" where
  "ExperimentsDir w c = Join [GetBaseDir w c, ''experiments'']"

definition ProjectsDir :: "world \<Rightarrow> Config \<Rightarrow> string" where
  "ProjectsDir w c = Join [GetBaseDir w c, ''projects'']"

definition StatePath :: "world \<Rightarrow> Config \<Rightarrow> string" where
  "StatePath w cfg = Join [GetBaseDir w cfg, ''state.json'']"

text \<open>
  \<^verbatim>\<open>json.Unmarshal(data, state)\<close> on a \<^verbatim>\<open>*State\<close>. The members are decoded in
  order into the state passed in. A member that is absent leaves its field as it is;
  \<^verbatim>\<open>null\<close> sets a map to nil and leaves a number as it is; an object is decoded into
  the map the field holds (a new one when it is nil); a value of the wrong type is
  skipped, and the first such error is returned once the object is read.
\<close>

fun decodeInto :: "('a \<rightharpoonup> 'b) option \<Rightarrow> ('a \<rightharpoonup> 'b) \<Rightarrow> ('a \<rightharpoonup> 'b) option" where
  "decodeInto None m = Some m"
| "decodeInto (Some cur) m = Some (cur ++ m)"

fun decodeMember :: "State \<Rightarrow> member \<Rightarrow> State" where
  "decodeMember s (MVersion (JVal v)) = s\<lparr>Version := v\<rparr>"
| "decodeMember s (MExperiments JNull) = s\<lparr>Experiments := None\<rparr>"
| "decodeMember s (MExperiments (JVal m)) = s\<lparr>Experiments := decodeInto (Experiments s) m\<rparr>"
| "decodeMember s (MProjects JNull) = s\<lparr>Projects := None\<rparr>"
| "decodeMember s (MProjects (JVal m)) = s\<lparr>Projects := decodeInto (Projects s) m\<rparr>"
| "decodeMember s (MScratches JNull) = s\<lparr>Scratches := None\<rparr>"
| "decodeMember s (MScratches (JVal m)) = s\<lparr>Scratches := decodeInto (Scratches s) m\<rparr>"
| "decodeMember s _ = s"

fun mismatch :: "member \<Rightarrow> error option" where
  "mismatch (MVersion (JMismatch e)) = Some e"
| "mismatch (MExperiments (JMismatch e)) = Some e"
| "mismatch (MProjects (JMismatch e)) = Some e"
| "mismatch (MScratches (JMismatch e)) = Some e"
| "mismatch _ = None"

definition Unmarshal :: "document \<Rightarrow> State \<Rightarrow> error + State" where
  "Unmarshal doc s =
     (case doc of
        Malformed e \<Rightarrow> Inl e
      | DNull \<Rightarrow> Inr s
      | DObject ms \<Rightarrow>
          (case List.map_filter mismatch ms of
             e # _ \<Rightarrow> Inl e
           | [] \<Rightarrow> Inr (foldl decodeMember s ms)))"

text \<open>
  \<^verbatim>\<open>json.MarshalIndent(s, ...)\<close>: the fields in the order of the struct, a nil map as
  \<^verbatim>\<open>null\<close>, and \<^verbatim>\<open>scratches\<close> left out when the map is nil or empty (\<^verbatim>\<open>omitempty\<close>).
\<close>

fun encodeMap :: "'a option \<Rightarrow> 'a jvalue" where
  "encodeMap None = JNull"
| "encodeMap (Some m) = JVal m"

definition Marshal :: "State \<Rightarrow> document" where
  "Marshal s =
     DObject ([MVersion (JVal (Version s)), MExperiments (encodeMap (Experiments s)),
               MProjects (encodeMap (Projects s))] @
              (if Scratches s = None \<or> Scratches s = Some Map.empty then []
               else [MScratches (encodeMap (Scratches s))]))"

definition LoadState :: "Config \<Rightarrow> world \<Rightarrow> error + State" where
  "LoadState cfg w =
     (let statePath = StatePath w cfg;
          state = \<lparr>Version = 1, Experiments = Some Map.empty, Projects = Some Map.empty,
                   Scratches = Some Map.empty\<rparr>
      in case files w statePath of
           NotExist \<Rightarrow> Inr state
         | Unreadable e \<Rightarrow> Inl e
         | Contents data \<Rightarrow>
             (case Unmarshal data state of
                Inl e \<Rightarrow> Inl e
              | Inr state1 \<Rightarrow>
                  let state2 = (if Experiments state1 = None
                                then state1\<lparr>Experiments := Some Map.empty\<rparr> else state1);
                      state3 = (if Projects state2 = None
                                then state2\<lparr>Projects := Some Map.empty\<rparr> else state2);
                      state4 = (if Scratches state3 = None
                                then state3\<lparr>Scratches := Some Map.empty\<rparr> else state3)
                  in Inr state4))"

text \<open>
  \<^verbatim>\<open>State.Save\<close>. A write that fails is taken to leave the file as it was.
\<close>

definition Save :: "State \<Rightarrow> Config \<Rightarrow> world \<Rightarrow> error option \<times> world" where
  "Save s cfg w =
     (let statePath = StatePath w cfg;
          (r, w1) = perform (MkdirAll (Dir statePath)) w
      in case err r of
           Some e \<Rightarrow> (Some e, w1)
         | None \<Rightarrow>
             let (r2, w2) = perform (WriteFile statePath) w1
             in case err r2 of
                  Some e \<Rightarrow> (Some e, w2)
                | None \<Rightarrow> (None, w2\<lparr>files := (files w2)(statePath := Contents (Marshal s))\<rparr>))"

definition ExperimentKey :: "string \<Rightarrow> string \<Rightarrow> string" where
  "ExperimentKey repo name = (let repoName = Base repo in repoName @ ''-'' @ name)"

text \<open>
  \<^verbatim>\<open>State.AddExperiment\<close> assigns to an entry of the map, which panics when the map
  is nil: the result is \<open>None\<close> then.
\<close>

definition AddExperiment :: "Experiment \<Rightarrow> State \<Rightarrow> State option" where
  "AddExperiment exp s =
     (let key = ExperimentKey (Repo exp) (Name exp)
      in case Experiments s of
           None \<Rightarrow> None
         | Some m \<Rightarrow> Some (s\<lparr>Experiments := Some (m(key \<mapsto> Some exp))\<rparr>))"

text \<open>Reading a nil map gives the zero value, a nil pointer.\<close>

definition GetExperiment :: "State \<Rightarrow> string \<Rightarrow> Experiment option" where
  "GetExperiment s key =
     (case Experiments s of
        None \<Rightarrow> None
      | Some m \<Rightarrow> (case m key of None \<Rightarrow> None | Some p \<Rightarrow> p))"

definition RemoveExperiment :: "State \<Rightarrow> string \<Rightarrow> State" where
  "RemoveExperiment s key =
     (case Experiments s of
        None \<Rightarrow> s
      | Some m \<Rightarrow> s\<lparr>Experiments := Some (m(key := None))\<rparr>)"

section \<open>Name validation (package cmd)\<close>

subsection \<open>\<^verbatim>\<open>regexp.MatchString\<close>\<close>

text \<open>
  A regular expression as Go's \<^verbatim>\<open>regexp/syntax\<close> parses it, for the operators the
  repository's name pattern needs. A character class is a list of inclusive ranges.
  The classes of the pattern are ASCII, and a byte of a multi-byte rune is in no
  ASCII range, so matching bytes and matching runes accept the same texts.
\<close>

datatype regex =
    NoMatch
  | EmptyMatch
  | CharClass "(char \<times> char) list"
  | Alternate regex regex
  | Concat regex regex
  | Star regex

definition inClass :: "(char \<times> char) list \<Rightarrow> char \<Rightarrow> bool" where
  "inClass ranges c =
     list_ex (\<lambda>(lo, hi). (of_char lo :: nat) \<le> of_char c \<and> (of_char c :: nat) \<le> of_char hi) ranges"

fun nullable :: "regex \<Rightarrow> bool" where
  "nullable NoMatch = False"
| "nullable EmptyMatch = True"
| "nullable (CharClass ranges) = False"
| "nullable (Alternate r s) = (nullable r \<or> nullable s)"
| "nullable (Concat r s) = (nullable r \<and> nullable s)"
| "nullable (Star r) = True"

text \<open>What is left of an expression once it has read the byte \<open>c\<close>.\<close>

fun after :: "char \<Rightarrow> regex \<Rightarrow> regex" where
  "after c NoMatch = NoMatch"
| "after c EmptyMatch = NoMatch"
| "after c (CharClass ranges) = (if inClass ranges c then EmptyMatch else NoMatch)"
| "after c (Alternate r s) = Alternate (after c r) (after c s)"
| "after c (Concat r s) =
     Alternate (Concat (after c r) s) (if nullable r then after c s else NoMatch)"
| "after c (Star r) = Concat (after c r) (Star r)"

text \<open>
  The expression matches the whole text. This is \<^verbatim>\<open>regexp.MatchString\<close> for a
  pattern \<^verbatim>\<open>^...$\<close>: without the multi-line flag, \<^verbatim>\<open>^\<close> holds at the start of the
  text only and \<^verbatim>\<open>$\<close> at its end only.
\<close>

fun matchWhole :: "regex \<Rightarrow> string \<Rightarrow> bool" where
  "matchWhole r [] = nullable r"
| "matchWhole r (c # cs) = matchWhole (after c r) cs"

text \<open>
  \<^verbatim>\<open>isValidExpName\<close> (used by exp, feat and project creation) and
  \<^verbatim>\<open>isValidScratchName\<close> call \<^verbatim>\<open>regexp.MatchString\<close> with the same pattern.
\<close>

text \<open>The body of \<^verbatim>\<open>^[a-zA-Z0-9][a-zA-Z0-9_-]*$\<close>.\<close>

definition namePattern :: regex where
  "namePattern =
     Concat (CharClass [(CHR ''a'', CHR ''z''), (CHR ''A'', CHR ''Z''), (CHR ''0'', CHR ''9'')])
       (Star (CharClass [(CHR ''a'', CHR ''z''), (CHR ''A'', CHR ''Z''), (CHR ''0'', CHR ''9''),
                         (CHR ''_'', CHR ''_''), (CHR ''-'', CHR ''-'')]))"

definition isValidExpName :: "string \<Rightarrow> bool" where
  "isValidExpName name = (if name = [] then False else matchWhole namePattern name)"

definition isValidScratchName :: "string \<Rightarrow> bool" where
  "isValidScratchName name = (if name = [] then False else matchWhole namePattern name)"

section \<open>Registering repositories (package cmd, \<^verbatim>\<open>repo add\<close>)\<close>




section \<open>The command handlers (package cmd)\<close>

text \<open>
  A handler returns a Go \<^verbatim>\<open>error\<close> (\<open>None\<close>: nil) or panics. The flags of a
  command and the outcome of \<^verbatim>\<open>config.Load()\<close> are arguments of the models.
\<close>

datatype outcome = Return "error option" | Panic string

subsection \<open>Helpers\<close>

definition TrimSuffix :: "string \<Rightarrow> string \<Rightarrow> string" where
  "TrimSuffix s suf = (if suffix suf s then take (length s - length suf) s else s)"

text \<open>
  \<^verbatim>\<open>strings.ToUpper\<close> as far as the ticket pattern, which reads ASCII only, can
  see it: the ASCII letters, and the two other runes whose upper case is ASCII
  (U+0131 gives \<open>I\<close>, U+017F gives \<open>S\<close>).
\<close>

fun ToUpper :: "string \<Rightarrow> string" where
  "ToUpper [] = []"
| "ToUpper [c] =
     (if 97 \<le> (of_char c :: nat) \<and> (of_char c :: nat) \<le> 122
      then [char_of (of_char c - 32 :: nat)] else [c])"
| "ToUpper (c # d # cs) =
     (if c = CHR 0xC4 \<and> d = CHR 0xB1 then CHR ''I'' # ToUpper cs
      else if c = CHR 0xC5 \<and> d = CHR 0xBF then CHR ''S'' # ToUpper cs
      else if 97 \<le> (of_char c :: nat) \<and> (of_char c :: nat) \<le> 122
      then char_of (of_char c - 32 :: nat) # ToUpper (d # cs)
      else c # ToUpper (d # cs))"

text \<open>
  \<^verbatim>\<open>extractTicket\<close>: the first group of \<^verbatim>\<open>^([A-Z]+-\d+)\<close> in the upper-cased
  name, or the empty string.
\<close>

definition extractTicket :: "string \<Rightarrow> string" where
  "extractTicket name =
     (let u = ToUpper name;
          letters = takeWhile (\<lambda>c. 65 \<le> (of_char c :: nat) \<and> (of_char c :: nat) \<le> 90) u;
          rest = drop (length letters) u;
          digits = takeWhile isDigit (drop 1 rest)
      in if letters \<noteq> [] \<and> take 1 rest = ''-'' \<and> digits \<noteq> []
         then letters @ ''-'' @ digits else [])"

text \<open>
  \<^verbatim>\<open>resolveRepo\<close>. The picker shows the registered names in the order in which Go
  iterates the map, which is not specified; the answer is what the model reads.
\<close>

definition resolveRepo :: "Config \<Rightarrow> string \<Rightarrow> world \<Rightarrow> (error + string) \<times> world" where
  "resolveRepo cfg repoFlag w =
     (if repoFlag \<noteq> [] then
        (case Repos cfg repoFlag of
           Some path \<Rightarrow> (Inr (ExpandPath w path), w)
         | None \<Rightarrow>
             let expanded = ExpandPath w repoFlag;
                 (isRepo, w1) = IsGitRepo expanded w
             in if isRepo then GetRepoRoot expanded w1
                else (Inl (''not a git repository: '' @ repoFlag), w1))
      else
        let (r, w1) = perform Getwd w
        in case err r of
             Some e \<Rightarrow> (Inl e, w1)
           | None \<Rightarrow>
               let cwd = out r;
                   (isRepo, w2) = IsGitRepo cwd w1
               in if isRepo then GetRepoRoot cwd w2
                  else if Repos cfg = Map.empty then
                    (Inl ''not in a git repo. Register repos with: clade repo add <path>'', w2)
                  else
                    let (r2, w3) = perform (Select ''Select repo'') w2
                    in case err r2 of
                         Some e \<Rightarrow> (Inl e, w3)
                       | None \<Rightarrow>
                           let selected = TrimSuffix (out r2) '' (last used)''
                           in (Inr (ExpandPath w3
                                      (case Repos cfg selected of None \<Rightarrow> [] | Some p \<Rightarrow> p)),
                               w3))"

definition showRepoPicker :: "Config \<Rightarrow> world \<Rightarrow> (error + string) \<times> world" where
  "showRepoPicker cfg w =
     (let (r, w1) = perform Getwd w;
          (isRepo, w2) = (if err r = None then IsGitRepo (out r) w1 else (False, w1));
          (currentRepoPath, w3) =
             (if isRepo then
                let (res, w') = GetRepoRoot (out r) w2
                in (case res of Inl e \<Rightarrow> [] | Inr root \<Rightarrow> root, w')
              else ([], w2))
      in if \<not> isRepo \<and> Repos cfg = Map.empty then
           (Inl ''no repos available. Register repos with: clade repo add <path>'', w3)
         else
           let (r2, w4) = perform (Select ''Select repo'') w3
           in case err r2 of
                Some e \<Rightarrow> (Inl e, w4)
              | None \<Rightarrow>
                  if out r2 = ''(current directory)'' then (Inr currentRepoPath, w4)
                  else
                    let selected = TrimSuffix (out r2) '' (last used)''
                    in (Inr (ExpandPath w4
                               (case Repos cfg selected of None \<Rightarrow> [] | Some p \<Rightarrow> p)),
                        w4))"

definition resolveRepoWithPick ::
    "Config \<Rightarrow> string \<Rightarrow> bool \<Rightarrow> world \<Rightarrow> (error + string) \<times> world" where
  "resolveRepoWithPick cfg repoFlag forcePick w =
     (if forcePick then showRepoPicker cfg w else resolveRepo cfg repoFlag w)"

definition launchAgent :: "Config \<Rightarrow> string \<Rightarrow> string \<Rightarrow> world \<Rightarrow> error option \<times> world" where
  "launchAgent cfg workdir agentOverride w =
     (let agentCmd = (if agentOverride \<noteq> [] then agentOverride else Agent cfg);
          (r, w1) = perform (Launch workdir agentCmd) w
      in (err r, w1))"

definition launchSession ::
    "Config \<Rightarrow> string \<Rightarrow> string \<Rightarrow> bool \<Rightarrow> bool \<Rightarrow> world \<Rightarrow> error option \<times> world" where
  "launchSession cfg workdir editorOverride noAgent noEditor w =
     (let editor = (if editorOverride \<noteq> [] then editorOverride else Editor cfg);
          w1 = (if \<not> noEditor \<and> editor \<noteq> [] then snd (perform (OpenEditor workdir editor) w)
                else w)
      in if \<not> noAgent \<and> Agent cfg \<noteq> [] then
           let (r, w2) = perform (Launch workdir (Agent cfg)) w1 in (err r, w2)
         else (None, w1))"

subsection \<open>\<^verbatim>\<open>clade exp\<close>\<close>

text \<open>What \<^verbatim>\<open>runExp\<close> and \<^verbatim>\<open>runFeat\<close> have computed when they start to create.\<close>

record creation =
  c_cfg :: Config
  c_state :: State
  c_name :: string
  c_repoPath :: string
  c_repoName :: string
  c_key :: string
  c_path :: string
  c_branch :: string

text \<open>
  \<^verbatim>\<open>runExp\<close> up to the check for an experiment that is tracked already: an outcome
  when the handler returns there, or what it goes on with.
\<close>

definition runExp_prepare ::
    "error + Config \<Rightarrow> string list \<Rightarrow> string \<Rightarrow> string \<Rightarrow> world
     \<Rightarrow> (outcome + creation) \<times> world" where
  "runExp_prepare loaded args expRepoFlag expAgentFlag w =
     (case loaded of
        Inl e \<Rightarrow> (Inl (Return (Some (''failed to load config: '' @ e))), w)
      | Inr cfg \<Rightarrow>
          let (named, w1) =
                (if length args > 0 then (Inr (args ! 0), w)
                 else let (r, w') = perform (Prompt ''Experiment name'') w
                      in (case err r of Some e \<Rightarrow> Inl e | None \<Rightarrow> Inr (out r), w'))
          in case named of
               Inl e \<Rightarrow> (Inl (Return (Some e)), w1)
             | Inr expName \<Rightarrow>
                 if \<not> isValidExpName expName then
                   (Inl (Return (Some
                      ''invalid experiment name: use alphanumeric, hyphens, underscores only'')),
                    w1)
                 else
                   let (resolved, w2) = resolveRepo cfg expRepoFlag w1
                   in case resolved of
                        Inl e \<Rightarrow> (Inl (Return (Some e)), w2)
                      | Inr repoPath \<Rightarrow>
                          let cfg1 = cfg\<lparr>LastRepo := repoPath\<rparr>;
                              (_, w3) = perform (ConfigSave cfg1) w2;
                              repoName = GetRepoName repoPath;
                              expKey = ExperimentKey repoPath expName;
                              expPath = Join [ExperimentsDir w3 cfg1, expKey];
                              branch = ''exp/'' @ expName
                          in case LoadState cfg1 w3 of
                               Inl e \<Rightarrow>
                                 (Inl (Return (Some (''failed to load state: '' @ e))), w3)
                             | Inr state \<Rightarrow>
                                 (case GetExperiment state expKey of
                                    Some existing \<Rightarrow>
                                      let (r, w4) = perform (Prompt ''Resume existing experiment'') w3
                                      in if err r = None then
                                           let (e, w5) = launchAgent cfg1 (Path existing)
                                                           expAgentFlag w4
                                           in (Inl (Return e), w5)
                                         else (Inl (Return None), w4)
                                  | None \<Rightarrow>
                                      (Inr \<lparr>c_cfg = cfg1, c_state = state, c_name = expName,
                                            c_repoPath = repoPath, c_repoName = repoName,
                                            c_key = expKey, c_path = expPath,
                                            c_branch = branch\<rparr>, w3)))"

text \<open>
  The files of the new worktree: the \<^verbatim>\<open>.claude\<close> directory, the files git ignores,
  and the metadata file. Their failures are warnings.
\<close>

definition populateWorktree :: "creation \<Rightarrow> world \<Rightarrow> world" where
  "populateWorktree c w =
     (let sourceClaudeDir = Join [c_repoPath c, ''.claude''];
          (st, w1) = perform (Stat sourceClaudeDir) w;
          w2 = (if err st = None then
                  snd (perform (CopyDir sourceClaudeDir (Join [c_path c, ''.claude''])) w1)
                else if AutoInit (c_cfg c) then snd (perform (InitRepo (c_path c)) w1)
                else w1);
          (_, w3) = perform (CopyGitignoredFiles (c_repoPath c) (c_path c)) w2;
          (_, w4) = perform (WriteJSON (Join [c_path c, ''.clade.json''])) w3
      in w4)"

text \<open>The record of the new experiment, added to the state, and the state saved.\<close>

definition recordExperiment :: "creation \<Rightarrow> world \<Rightarrow> State option \<times> world" where
  "recordExperiment c w =
     (let exp = \<lparr>Name = c_name c, Repo = c_repoPath c, Path = c_path c, Branch = c_branch c,
                 Ticket = extractTicket (c_name c), Created = Now w, LastUsed = Now w\<rparr>
      in case AddExperiment exp (c_state c) of
           None \<Rightarrow> (None, w)
         | Some state1 \<Rightarrow> let (_, w1) = Save state1 (c_cfg c) w in (Some state1, w1))"

text \<open>\<^verbatim>\<open>runExp\<close> from "Create experiment directory" on.\<close>

definition runExp_create :: "creation \<Rightarrow> string \<Rightarrow> world \<Rightarrow> outcome \<times> world" where
  "runExp_create c expAgentFlag w =
     (let (r, w1) = perform (MkdirAll (ExperimentsDir w (c_cfg c))) w
      in case err r of
           Some e \<Rightarrow>
             (Return (Some (''failed to create experiments directory: '' @ e)), w1)
         | None \<Rightarrow>
             let (branchInfo, w2) = CheckBranch (c_repoPath c) (c_branch c) w1
             in if Status branchInfo \<noteq> BranchNotFound then
                  (Return (Some ''branch already exists''), w2)
                else
                  let (wtErr, w3) = CreateWorktreeNew (c_repoPath c) (c_path c) (c_branch c) w2
                  in case wtErr of
                       Some e \<Rightarrow> (Return (Some (''failed to create worktree: '' @ e)), w3)
                     | None \<Rightarrow>
                         let w4 = populateWorktree c w3;
                             (saved, w5) = recordExperiment c w4
                         in case saved of
                              None \<Rightarrow> (Panic ''assignment to entry in nil map'', w5)
                            | Some state1 \<Rightarrow>
                                let (e, w6) = launchAgent (c_cfg c) (c_path c) expAgentFlag w5
                                in (Return e, w6))"

definition runExp ::
    "error + Config \<Rightarrow> string list \<Rightarrow> string \<Rightarrow> string \<Rightarrow> world \<Rightarrow> outcome \<times> world" where
  "runExp loaded args expRepoFlag expAgentFlag w =
     (let (p, w1) = runExp_prepare loaded args expRepoFlag expAgentFlag w
      in case p of
           Inl result \<Rightarrow> (result, w1)
         | Inr c \<Rightarrow> runExp_create c expAgentFlag w1)"

subsection \<open>\<^verbatim>\<open>clade feat\<close>\<close>

record featFlags =
  featRepoFlag :: string
  featPickFlag :: bool
  featBranchFlag :: string
  featEditorFlag :: string
  featNoAgentFlag :: bool
  featNoEditorFlag :: bool

definition runFeat_prepare ::
    "error + Config \<Rightarrow> string list \<Rightarrow> featFlags \<Rightarrow> world \<Rightarrow> (outcome + creation) \<times> world" where
  "runFeat_prepare loaded args flags w =
     (case loaded of
        Inl e \<Rightarrow> (Inl (Return (Some (''failed to load config: '' @ e))), w)
      | Inr cfg \<Rightarrow>
          let (named, w1) =
                (if length args > 0 then (Inr (args ! 0), w)
                 else let (r, w') = perform (Prompt ''Feature name'') w
                      in (case err r of Some e \<Rightarrow> Inl e | None \<Rightarrow> Inr (out r), w'))
          in case named of
               Inl e \<Rightarrow> (Inl (Return (Some e)), w1)
             | Inr featName \<Rightarrow>
                 if \<not> isValidExpName featName then
                   (Inl (Return (Some
                      ''invalid feature name: use alphanumeric, hyphens, underscores only'')),
                    w1)
                 else
                   let (resolved, w2) =
                         resolveRepoWithPick cfg (featRepoFlag flags) (featPickFlag flags) w1
                   in case resolved of
                        Inl e \<Rightarrow> (Inl (Return (Some e)), w2)
                      | Inr repoPath \<Rightarrow>
                          let cfg1 = cfg\<lparr>LastRepo := repoPath\<rparr>;
                              (_, w3) = perform (ConfigSave cfg1) w2;
                              repoName = GetRepoName repoPath;
                              expKey = ExperimentKey repoPath featName;
                              featPath = Join [ExperimentsDir w3 cfg1, expKey];
                              (branched, w4) =
                                (if featBranchFlag flags \<noteq> [] then (Inr (featBranchFlag flags), w3)
                                 else
                                   let defaultBranch = ''feat/'' @ featName;
                                       (r, w') = perform (Prompt ''Branch name'') w3
                                   in (case err r of
                                         Some e \<Rightarrow> Inl e
                                       | None \<Rightarrow>
                                           Inr (if out r = [] then defaultBranch else out r),
                                       w'))
                          in case branched of
                               Inl e \<Rightarrow> (Inl (Return (Some e)), w4)
                             | Inr branch \<Rightarrow>
                                 (case LoadState cfg1 w4 of
                                    Inl e \<Rightarrow>
                                      (Inl (Return (Some (''failed to load state: '' @ e))), w4)
                                  | Inr state \<Rightarrow>
                                      (case GetExperiment state expKey of
                                         Some existing \<Rightarrow>
                                           let (r, w5) =
                                                 perform (Prompt ''Resume existing feature'') w4
                                           in if err r = None then
                                                let (e, w6) =
                                                      launchSession cfg1 (Path existing)
                                                        (featEditorFlag flags)
                                                        (featNoAgentFlag flags)
                                                        (featNoEditorFlag flags) w5
                                                in (Inl (Return e), w6)
                                              else (Inl (Return None), w5)
                                       | None \<Rightarrow>
                                           (Inr \<lparr>c_cfg = cfg1, c_state = state,
                                                 c_name = featName, c_repoPath = repoPath,
                                                 c_repoName = repoName, c_key = expKey,
                                                 c_path = featPath, c_branch = branch\<rparr>,
                                            w4))))"

text \<open>\<^verbatim>\<open>runFeat\<close> from "Create feature directory" on.\<close>

definition runFeat_create :: "creation \<Rightarrow> featFlags \<Rightarrow> world \<Rightarrow> outcome \<times> world" where
  "runFeat_create c flags w =
     (let (r, w1) = perform (MkdirAll (ExperimentsDir w (c_cfg c))) w
      in case err r of
           Some e \<Rightarrow>
             (Return (Some (''failed to create experiments directory: '' @ e)), w1)
         | None \<Rightarrow>
             let (branchInfo, w2) = CheckBranch (c_repoPath c) (c_branch c) w1
             in if Status branchInfo \<noteq> BranchNotFound then
                  (Return (Some ''branch already exists''), w2)
                else
                  let (wtErr, w3) = CreateWorktreeNew (c_repoPath c) (c_path c) (c_branch c) w2
                  in case wtErr of
                       Some e \<Rightarrow> (Return (Some (''failed to create worktree: '' @ e)), w3)
                     | None \<Rightarrow>
                         let w4 = populateWorktree c w3;
                             (saved, w5) = recordExperiment c w4
                         in case saved of
                              None \<Rightarrow> (Panic ''assignment to entry in nil map'', w5)
                            | Some state1 \<Rightarrow>
                                let (e, w6) =
                                      launchSession (c_cfg c) (c_path c) (featEditorFlag flags)
                                        (featNoAgentFlag flags) (featNoEditorFlag flags) w5
                                in (Return e, w6))"

definition runFeat ::
    "error + Config \<Rightarrow> string list \<Rightarrow> featFlags \<Rightarrow> world \<Rightarrow> outcome \<times> world" where
  "runFeat loaded args flags w =
     (let (p, w1) = runFeat_prepare loaded args flags w
      in case p of
           Inl result \<Rightarrow> (result, w1)
         | Inr c \<Rightarrow> runFeat_create c flags w1)"

subsection \<open>\<^verbatim>\<open>clade resume\<close>: adopting a branch that is not tracked\<close>

text \<open>The \<^verbatim>\<open>switch\<close> of \<^verbatim>\<open>adoptOrphanedBranch\<close> over the status; it has no default.\<close>

definition adoptOrphanedBranch_switch ::
    "BranchInfo \<Rightarrow> string \<Rightarrow> string \<Rightarrow> string \<Rightarrow> world \<Rightarrow> error option \<times> world" where
  "adoptOrphanedBranch_switch branchInfo repoPath expPath branch w =
     (case Status branchInfo of
        BranchLocalOnly \<Rightarrow> CreateWorktreeFromBranch repoPath expPath branch w
      | BranchRemoteOnly \<Rightarrow> CreateWorktreeTrackRemote repoPath expPath branch w
      | BranchBoth \<Rightarrow> CreateWorktreeFromBranch repoPath expPath branch w
      | BranchNotFound \<Rightarrow> (None, w))"

text \<open>\<^verbatim>\<open>adoptOrphanedBranch\<close> once the worktree exists ("Auto-init if needed" on).\<close>

definition adoptOrphanedBranch_finish ::
    "Config \<Rightarrow> State \<Rightarrow> string \<Rightarrow> string \<Rightarrow> string \<Rightarrow> string \<Rightarrow> string \<Rightarrow> world
     \<Rightarrow> outcome \<times> world" where
  "adoptOrphanedBranch_finish cfg state name repoPath expPath branch resumeAgentFlag w =
     (let w1 = (if AutoInit cfg then snd (perform (InitRepo expPath) w) else w);
          exp = \<lparr>Name = name, Repo = repoPath, Path = expPath, Branch = branch,
                 Ticket = extractTicket name, Created = Now w1, LastUsed = Now w1\<rparr>
      in case AddExperiment exp state of
           None \<Rightarrow> (Panic ''assignment to entry in nil map'', w1)
         | Some state1 \<Rightarrow>
             let (_, w2) = Save state1 cfg w1;
                 (e, w3) = launchAgent cfg expPath resumeAgentFlag w2
             in (Return e, w3))"

definition adoptOrphanedBranch ::
    "Config \<Rightarrow> State \<Rightarrow> string \<Rightarrow> string \<Rightarrow> string \<Rightarrow> world \<Rightarrow> outcome \<times> world" where
  "adoptOrphanedBranch cfg state name resumeRepoFlag resumeAgentFlag w =
     (let (resolved, w1) = resolveRepo cfg resumeRepoFlag w
      in case resolved of
           Inl e \<Rightarrow> (Return (Some e), w1)
         | Inr repoPath \<Rightarrow>
             let branch = ''exp/'' @ name;
                 (_, w2) = Fetch repoPath w1;
                 (branchInfo, w3) = CheckBranch repoPath branch w2
             in if Status branchInfo = BranchNotFound then
                  (Return (Some ''branch not found''), w3)
                else
                  let expKey = ExperimentKey repoPath name;
                      expPath = Join [ExperimentsDir w3 cfg, expKey];
                      (r, w4) = perform (MkdirAll (ExperimentsDir w3 cfg)) w3
                  in case err r of
                       Some e \<Rightarrow> (Return (Some e), w4)
                     | None \<Rightarrow>
                         let (wtErr, w5) =
                               adoptOrphanedBranch_switch branchInfo repoPath expPath branch w4
                         in case wtErr of
                              Some e \<Rightarrow> (Return (Some e), w5)
                            | None \<Rightarrow>
                                adoptOrphanedBranch_finish cfg state name repoPath expPath
                                  branch resumeAgentFlag w5)"

subsection \<open>\<^verbatim>\<open>clade project\<close>: the worktrees of a new project\<close>

record projectRepo =
  SourcePath :: string
  FolderName :: string

text \<open>
  The \<^verbatim>\<open>switch\<close> of \<^verbatim>\<open>runProject\<close> over the status the preflight check found.
\<close>

definition runProject_switch ::
    "BranchInfo \<Rightarrow> string \<Rightarrow> string \<Rightarrow> string \<Rightarrow> world \<Rightarrow> error option \<times> world" where
  "runProject_switch info sourcePath worktreePath branchName w =
     (case Status info of
        BranchNotFound \<Rightarrow> CreateWorktreeNew sourcePath worktreePath branchName w
      | BranchLocalOnly \<Rightarrow> CreateWorktreeFromBranch sourcePath worktreePath branchName w
      | BranchBoth \<Rightarrow> CreateWorktreeFromBranch sourcePath worktreePath branchName w
      | BranchRemoteOnly \<Rightarrow> CreateWorktreeTrackRemote sourcePath worktreePath branchName w)"

fun cleanupPartialProject_loop :: "string \<Rightarrow> ProjectRepo list \<Rightarrow> world \<Rightarrow> world" where
  "cleanupPartialProject_loop projectPath [] w = w"
| "cleanupPartialProject_loop projectPath (repo # created) w =
     cleanupPartialProject_loop projectPath created
       (snd (perform (RemoveAll (Join [projectPath, ProjectRepo_Name repo])) w))"

definition cleanupPartialProject :: "string \<Rightarrow> ProjectRepo list \<Rightarrow> world \<Rightarrow> world" where
  "cleanupPartialProject projectPath created w =
     snd (perform (Remove projectPath) (cleanupPartialProject_loop projectPath created w))"

text \<open>
  The loop "Create worktrees for each repo" of \<^verbatim>\<open>runProject\<close>: the repositories
  still to do, and those created so far. A missing entry of the map of results
  reads as the zero \<^verbatim>\<open>BranchInfo\<close>.
\<close>

fun runProject_worktrees ::
    "Config \<Rightarrow> string \<Rightarrow> string \<Rightarrow> (string \<rightharpoonup> BranchInfo) \<Rightarrow> projectRepo list
     \<Rightarrow> ProjectRepo list \<Rightarrow> world \<Rightarrow> (error + ProjectRepo list) \<times> world" where
  "runProject_worktrees cfg projectPath branchName branchResults [] createdRepos w =
     (Inr createdRepos, w)"
| "runProject_worktrees cfg projectPath branchName branchResults (repo # repos) createdRepos w =
     (let worktreePath = Join [projectPath, FolderName repo];
          info = (case branchResults (SourcePath repo) of
                    Some i \<Rightarrow> i
                  | None \<Rightarrow> \<lparr>Status = BranchNotFound, LocalAhead = 0, RemoteBehind = 0,
                              Diverged = False\<rparr>);
          (wtErr, w1) = runProject_switch info (SourcePath repo) worktreePath branchName w
      in case wtErr of
           Some e \<Rightarrow> (Inl e, cleanupPartialProject projectPath createdRepos w1)
         | None \<Rightarrow>
             let w2 = (if AutoInit cfg then snd (perform (InitRepo worktreePath) w1) else w1);
                 (_, w3) = perform (CopyGitignoredFiles (SourcePath repo) worktreePath) w2
             in runProject_worktrees cfg projectPath branchName branchResults repos
                  (createdRepos @ [\<lparr>ProjectRepo_Name = FolderName repo,
                                    Source = SourcePath repo\<rparr>]) w3)"

section \<open>The claims' own vocabulary\<close>

text \<open>
  The classification as the specification words it: a table over the two facts
  "the branch exists locally" and "the branch exists on the remote".
\<close>

fun spec_classification :: "bool \<Rightarrow> bool \<Rightarrow> BranchStatus" where
  "spec_classification True True = BranchBoth"
| "spec_classification True False = BranchLocalOnly"
| "spec_classification False True = BranchRemoteOnly"
| "spec_classification False False = BranchNotFound"

text \<open>
  The values a document gives for one map of the state, in the order of the text.
  The document omits the map when there is none, and nulls it when the one that
  counts, the last, is \<^verbatim>\<open>null\<close>.
\<close>

fun experiments_of :: "member list \<Rightarrow> (string \<rightharpoonup> Experiment option) jvalue list" where
  "experiments_of [] = []"
| "experiments_of (MExperiments v # ms) = v # experiments_of ms"
| "experiments_of (m # ms) = experiments_of ms"

fun projects_of :: "member list \<Rightarrow> (string \<rightharpoonup> Project option) jvalue list" where
  "projects_of [] = []"
| "projects_of (MProjects v # ms) = v # projects_of ms"
| "projects_of (m # ms) = projects_of ms"

fun scratches_of :: "member list \<Rightarrow> (string \<rightharpoonup> Scratch option) jvalue list" where
  "scratches_of [] = []"
| "scratches_of (MScratches v # ms) = v # scratches_of ms"
| "scratches_of (m # ms) = scratches_of ms"

definition omits_or_nulls :: "'a jvalue list \<Rightarrow> bool" where
  "omits_or_nulls vs = (vs = [] \<or> last vs = JNull)"

text \<open>
  The characters of a name as the specification lists them: the ASCII letters and
  digits, and for all but the first character also hyphen and underscore.
\<close>

definition is_alnum :: "char \<Rightarrow> bool" where
  "is_alnum c = (c \<in> set ''abcdefghijklmnopqrstuvwxyzABCDEFGHIJKLMNOPQRSTUVWXYZ0123456789'')"

definition is_name_char :: "char \<Rightarrow> bool" where
  "is_name_char c = (is_alnum c \<or> c = CHR ''-'' \<or> c = CHR ''_'')"

text \<open>
  The three ways to create a worktree as the specification names them, the way it
  assigns to each status, and the function of package git that carries each out.
\<close>

datatype strategy = FreshBranch | ExistingLocalBranch | TrackRemoteBranch

fun spec_strategy :: "BranchStatus \<Rightarrow> strategy" where
  "spec_strategy BranchNotFound = FreshBranch"
| "spec_strategy BranchLocalOnly = ExistingLocalBranch"
| "spec_strategy BranchBoth = ExistingLocalBranch"
| "spec_strategy BranchRemoteOnly = TrackRemoteBranch"

fun run_strategy ::
    "strategy \<Rightarrow> string \<Rightarrow> string \<Rightarrow> string \<Rightarrow> world \<Rightarrow> error option \<times> world" where
  "run_strategy FreshBranch = CreateWorktreeNew"
| "run_strategy ExistingLocalBranch = CreateWorktreeFromBranch"
| "run_strategy TrackRemoteBranch = CreateWorktreeTrackRemote"

text \<open>
  The events that create a worktree or write into it or into the state: \<^verbatim>\<open>git
  worktree add\<close>, the copies into the worktree, its initialisation, the metadata file
  and the write of the state file. A world comes from another with nothing created
  when it holds the same state files and the events added are of no such kind.
\<close>

fun is_creation :: "event \<Rightarrow> bool" where
  "is_creation (Git d args) = (take 2 args = [''worktree'', ''add''])"
| "is_creation (CopyDir src dst) = True"
| "is_creation (InitRepo p) = True"
| "is_creation (CopyGitignoredFiles src dst) = True"
| "is_creation (WriteJSON p) = True"
| "is_creation (WriteFile p) = True"
| "is_creation e = False"

definition nothing_created :: "world \<Rightarrow> world \<Rightarrow> bool" where
  "nothing_created w w' =
     (files w' = files w \<and> (\<exists>evs. trace w' = trace w @ evs \<and> \<not> list_ex is_creation evs))"

section \<open>Example worlds\<close>

definition succeeded :: "string \<Rightarrow> response" where
  "succeeded s = \<lparr>err = None, out = s\<rparr>"

definition failed :: "error \<Rightarrow> response" where
  "failed e = \<lparr>err = Some e, out = []\<rparr>"

text \<open>One line of \<^verbatim>\<open>git ls-remote --heads origin exp/x\<close> for a branch that exists.\<close>

definition remote_head :: string where
  "remote_head = ''a1b2c3'' @ [CHR 0x09] @ ''refs/heads/exp/x'' @ [CHR 0x0A]"

text \<open>
  A git in which \<^verbatim>\<open>show-ref\<close> succeeds iff \<open>l\<close>, \<^verbatim>\<open>ls-remote\<close> fails (\<open>None\<close>) or
  prints \<open>r\<close>, \<^verbatim>\<open>rev-list\<close> fails (\<open>None\<close>) or prints \<open>revs\<close>, every directory is
  the root of a repository, and every other call succeeds with no output.
\<close>

fun example_env ::
    "bool \<Rightarrow> string option \<Rightarrow> string option \<Rightarrow> event list \<Rightarrow> event \<Rightarrow> response" where
  "example_env l r revs h (Git d args) =
     (if args = [''rev-parse'', ''--show-toplevel''] then succeeded (d @ [CHR 0x0A])
      else if take 1 args = [''show-ref''] then
        (if l then succeeded [] else failed ''exit status 1'')
      else if take 1 args = [''ls-remote''] then
        (case r of None \<Rightarrow> failed ''exit status 128'' | Some s \<Rightarrow> succeeded s)
      else if take 1 args = [''rev-list''] then
        (case revs of None \<Rightarrow> failed ''exit status 128'' | Some s \<Rightarrow> succeeded s)
      else succeeded [])"
| "example_env l r revs h e = succeeded []"

definition world_of :: "(event list \<Rightarrow> event \<Rightarrow> response) \<Rightarrow> world" where
  "world_of e =
     \<lparr>trace = [], env = e, files = (\<lambda>p. NotExist), clock = (\<lambda>h. int (length h)),
      dirs = (\<lambda>d. Inl ''no such directory''), home = ''/home/dev''\<rparr>"

definition empty_state :: State where
  "empty_state =
     \<lparr>Version = 1, Experiments = Some Map.empty, Projects = Some Map.empty,
      Scratches = Some Map.empty\<rparr>"

definition example_experiment :: "string \<Rightarrow> string \<Rightarrow> Experiment" where
  "example_experiment repo name =
     \<lparr>Name = name, Repo = repo, Path = ''/home/dev/clade/experiments/'' @ ExperimentKey repo name,
      Branch = ''exp/'' @ name, Ticket = [], Created = 0, LastUsed = 0\<rparr>"

definition example_config :: Config where
  "example_config =
     \<lparr>BaseDir = ''~/clade'', Agent = ''claude'', AgentFlags = [], Editor = [], AutoInit = True,
      Repos = [''api'' \<mapsto> ''/work/a/api''], RepoSettings = Map.empty, LastRepo = [],
      TmuxSplitDirection = ''horizontal''\<rparr>"

definition example_document :: document where
  "example_document =
     DObject [MVersion (JVal 1),
              MExperiments JNull,
              MProjects (JVal [''shop'' \<mapsto> None]),
              MOther]"

definition with_state_file :: "document \<Rightarrow> world \<Rightarrow> world" where
  "with_state_file doc w = w\<lparr>files := (files w)(''/home/dev/clade/state.json'' := Contents doc)\<rparr>"


text \<open>A world without the branch, and one where it exists locally only.\<close>

definition offline_world :: world where
  "offline_world = world_of (example_env False None None)"

definition local_world :: world where
  "local_world = world_of (example_env True None None)"

text \<open>What \<^verbatim>\<open>clade exp x -r api\<close> has computed when it starts to create, and flags for feat.\<close>

definition example_creation :: creation where
  "example_creation =
     \<lparr>c_cfg = example_config\<lparr>LastRepo := ''/work/a/api''\<rparr>, c_state = empty_state,
      c_name = ''x'', c_repoPath = ''/work/a/api'', c_repoName = ''api'', c_key = ''api-x'',
      c_path = ''/home/dev/clade/experiments/api-x'', c_branch = ''exp/x''\<rparr>"

definition example_flags :: featFlags where
  "example_flags =
     \<lparr>featRepoFlag = ''api'', featPickFlag = False, featBranchFlag = ''exp/x'',
      featEditorFlag = [], featNoAgentFlag = False, featNoEditorFlag = False\<rparr>"

section \<open>Branch reconciliation: the theorems\<close>

lemma CheckBranch_info:
  "fst (CheckBranch repoPath branch w) =
     (let w1 = snd (branchExistsLocal repoPath branch w);
          l = fst (branchExistsLocal repoPath branch w);
          r = fst (branchExistsRemote repoPath branch w1);
          w2 = snd (branchExistsRemote repoPath branch w1);
          d = fst (getBranchDivergence repoPath branch w2)
      in if l \<and> r then \<lparr>Status = BranchBoth, LocalAhead = fst d, RemoteBehind = fst (snd d),
                            Diverged = snd (snd d)\<rparr>
         else \<lparr>Status = (if l then BranchLocalOnly else if r then BranchRemoteOnly
                          else BranchNotFound),
               LocalAhead = 0, RemoteBehind = 0, Diverged = False\<rparr>)"
  by (simp add: CheckBranch_def Let_def split: prod.splits)

lemma CheckBranch_world:
  "snd (CheckBranch repoPath branch w) =
     (let w1 = snd (branchExistsLocal repoPath branch w);
          l = fst (branchExistsLocal repoPath branch w);
          r = fst (branchExistsRemote repoPath branch w1);
          w2 = snd (branchExistsRemote repoPath branch w1)
      in if l \<and> r then snd (getBranchDivergence repoPath branch w2) else w2)"
  by (simp add: CheckBranch_def Let_def split: prod.splits)

lemma getBranchDivergence_cases:
  "getBranchDivergence repoPath branch w =
     (let r = fst (perform (Git repoPath
                [''rev-list'', ''--left-right'', ''--count'', branch @ ''...origin/'' @ branch]) w);
          w1 = snd (perform (Git repoPath
                [''rev-list'', ''--left-right'', ''--count'', branch @ ''...origin/'' @ branch]) w);
          parts = Fields (TrimSpace (out r))
      in if err r = None \<and> length parts = 2
         then ((fst (Atoi (parts ! 0)), fst (Atoi (parts ! 1)),
                fst (Atoi (parts ! 0)) > 0 \<and> fst (Atoi (parts ! 1)) > 0), w1)
         else ((0, 0, False), w1))"
  by (simp add: getBranchDivergence_def Let_def split: prod.splits)

lemma example_local:
  "fst (branchExistsLocal ''/r'' ''exp/x'' (world_of (example_env l r v))) = l"
  by (simp add: branchExistsLocal_def perform_def world_of_def succeeded_def failed_def)

lemma example_remote:
  "fst (branchExistsRemote ''/r'' ''exp/x''
         (snd (branchExistsLocal ''/r'' ''exp/x'' (world_of (example_env l (Some remote_head) v)))))"
  by (cases l; code_simp)

lemma example_no_remote:
  "\<not> fst (branchExistsRemote ''/r'' ''exp/x''
           (snd (branchExistsLocal ''/r'' ''exp/x'' (world_of (example_env l None v)))))"
  by (simp add: branchExistsLocal_def branchExistsRemote_def perform_def world_of_def
      succeeded_def failed_def)

text \<open>
  C1. For every repository path, branch name and world, the status \<open>CheckBranch\<close>
  returns is the specification's table applied to the two booleans
  \<open>branchExistsLocal\<close> and \<open>branchExistsRemote\<close> computed (in this order): both when
  both hold, local-only when only the first holds, remote-only when only the second
  holds, not found when neither holds. The four states exclude each other, so each
  case yields exactly one of them.
\<close>

theorem CheckBranch_classification:
  fixes repoPath branch :: string and w :: world
  shows "let l = fst (branchExistsLocal repoPath branch w);
             r = fst (branchExistsRemote repoPath branch
                        (snd (branchExistsLocal repoPath branch w)));
             s = Status (fst (CheckBranch repoPath branch w))
         in s = spec_classification l r \<and>
            (s = BranchBoth) = (l \<and> r) \<and>
            (s = BranchLocalOnly) = (l \<and> \<not> r) \<and>
            (s = BranchRemoteOnly) = (\<not> l \<and> r) \<and>
            (s = BranchNotFound) = (\<not> l \<and> \<not> r)"
proof -
  have "Status (fst (CheckBranch repoPath branch w)) =
          spec_classification (fst (branchExistsLocal repoPath branch w))
            (fst (branchExistsRemote repoPath branch
                   (snd (branchExistsLocal repoPath branch w))))"
    by (simp add: CheckBranch_info Let_def)
  then show ?thesis
    by (cases "fst (branchExistsLocal repoPath branch w)";
        cases "fst (branchExistsRemote repoPath branch
                      (snd (branchExistsLocal repoPath branch w)))")
       (simp_all add: Let_def)
qed

theorem CheckBranch_classification_witness:
  "Status (fst (CheckBranch ''/r'' ''exp/x''
      (world_of (example_env True (Some remote_head) (Some ''2 3''))))) = BranchBoth \<and>
   Status (fst (CheckBranch ''/r'' ''exp/x''
      (world_of (example_env True None None)))) = BranchLocalOnly \<and>
   Status (fst (CheckBranch ''/r'' ''exp/x''
      (world_of (example_env False (Some remote_head) None)))) = BranchRemoteOnly \<and>
   Status (fst (CheckBranch ''/r'' ''exp/x''
      (world_of (example_env False None None)))) = BranchNotFound"
  using
    CheckBranch_classification [of "''/r''" "''exp/x''"
      "world_of (example_env True (Some remote_head) (Some ''2 3''))"]
    CheckBranch_classification [of "''/r''" "''exp/x''" "world_of (example_env True None None)"]
    CheckBranch_classification [of "''/r''" "''exp/x''"
      "world_of (example_env False (Some remote_head) None)"]
    CheckBranch_classification [of "''/r''" "''exp/x''" "world_of (example_env False None None)"]
  by (simp add: Let_def example_local example_remote example_no_remote)

lemma branchExistsLocal_cases:
  "branchExistsLocal repoPath branch w =
     (err (fst (perform (Git repoPath
              [''show-ref'', ''--verify'', ''--quiet'', ''refs/heads/'' @ branch]) w)) = None,
      snd (perform (Git repoPath
              [''show-ref'', ''--verify'', ''--quiet'', ''refs/heads/'' @ branch]) w))"
  by (simp add: branchExistsLocal_def split: prod.splits)

lemma branchExistsRemote_cases:
  "branchExistsRemote repoPath branch w =
     (let r = fst (perform (Git repoPath [''ls-remote'', ''--heads'', ''origin'', branch]) w)
      in (err r = None \<and> TrimSpace (out r) \<noteq> [],
          snd (perform (Git repoPath [''ls-remote'', ''--heads'', ''origin'', branch]) w)))"
  by (simp add: branchExistsRemote_def Let_def split: prod.splits)

lemma example_info:
  "fst (CheckBranch ''/r'' ''exp/x'' (world_of (example_env True (Some remote_head) (Some ''2 3'')))) =
     \<lparr>Status = BranchBoth, LocalAhead = 2, RemoteBehind = 3, Diverged = True\<rparr>"
  "fst (CheckBranch ''/r'' ''exp/x'' (world_of (example_env True (Some remote_head) (Some ''0 3'')))) =
     \<lparr>Status = BranchBoth, LocalAhead = 0, RemoteBehind = 3, Diverged = False\<rparr>"
  "fst (CheckBranch ''/r'' ''exp/x'' (world_of (example_env True (Some remote_head) (Some ''7'')))) =
     \<lparr>Status = BranchBoth, LocalAhead = 0, RemoteBehind = 0, Diverged = False\<rparr>"
  "fst (CheckBranch ''/r'' ''exp/x'' (world_of (example_env True (Some remote_head) None))) =
     \<lparr>Status = BranchBoth, LocalAhead = 0, RemoteBehind = 0, Diverged = False\<rparr>"
  "fst (CheckBranch ''/r'' ''exp/x'' (world_of (example_env True None None))) =
     \<lparr>Status = BranchLocalOnly, LocalAhead = 0, RemoteBehind = 0, Diverged = False\<rparr>"
  by code_simp+

text \<open>
  C2. For every repository path, branch name and world, the \<open>Diverged\<close> flag of the
  \<open>BranchInfo\<close> that \<open>CheckBranch\<close> returns holds iff both counts it returns are
  strictly positive. So it is false when either count is zero, when the status is
  not \<open>BranchBoth\<close>, when the \<^verbatim>\<open>rev-list\<close> query (asked after the two existence
  queries) fails, and when the output of that query does not split into exactly two
  fields.
\<close>

theorem CheckBranch_diverged:
  fixes repoPath branch :: string and w :: world
  defines "info \<equiv> fst (CheckBranch repoPath branch w)"
  defines "w2 \<equiv> snd (branchExistsRemote repoPath branch
                       (snd (branchExistsLocal repoPath branch w)))"
  defines "q \<equiv> fst (perform (Git repoPath
                [''rev-list'', ''--left-right'', ''--count'', branch @ ''...origin/'' @ branch]) w2)"
  shows "(Diverged info \<longleftrightarrow> LocalAhead info > 0 \<and> RemoteBehind info > 0) \<and>
         (LocalAhead info = 0 \<or> RemoteBehind info = 0 \<longrightarrow> \<not> Diverged info) \<and>
         (Status info \<noteq> BranchBoth \<longrightarrow> \<not> Diverged info) \<and>
         (err q \<noteq> None \<longrightarrow> \<not> Diverged info) \<and>
         (length (Fields (TrimSpace (out q))) \<noteq> 2 \<longrightarrow> \<not> Diverged info)"
  unfolding info_def w2_def q_def
  by (simp add: CheckBranch_info getBranchDivergence_cases Let_def)

theorem CheckBranch_diverged_witness:
  "Diverged (fst (CheckBranch ''/r'' ''exp/x''
      (world_of (example_env True (Some remote_head) (Some ''2 3''))))) \<and>
   LocalAhead (fst (CheckBranch ''/r'' ''exp/x''
      (world_of (example_env True (Some remote_head) (Some ''0 3''))))) = 0 \<and>
   \<not> Diverged (fst (CheckBranch ''/r'' ''exp/x''
      (world_of (example_env True (Some remote_head) (Some ''0 3''))))) \<and>
   Status (fst (CheckBranch ''/r'' ''exp/x''
      (world_of (example_env True None None)))) \<noteq> BranchBoth \<and>
   \<not> Diverged (fst (CheckBranch ''/r'' ''exp/x'' (world_of (example_env True None None)))) \<and>
   \<not> Diverged (fst (CheckBranch ''/r'' ''exp/x''
      (world_of (example_env True (Some remote_head) None)))) \<and>
   \<not> Diverged (fst (CheckBranch ''/r'' ''exp/x''
      (world_of (example_env True (Some remote_head) (Some ''7'')))))"
  using
    CheckBranch_diverged [of "''/r''" "''exp/x''"
      "world_of (example_env True (Some remote_head) (Some ''2 3''))"]
    CheckBranch_diverged [of "''/r''" "''exp/x''"
      "world_of (example_env True (Some remote_head) (Some ''0 3''))"]
    CheckBranch_diverged [of "''/r''" "''exp/x''" "world_of (example_env True None None)"]
    CheckBranch_diverged [of "''/r''" "''exp/x''"
      "world_of (example_env True (Some remote_head) None)"]
    CheckBranch_diverged [of "''/r''" "''exp/x''"
      "world_of (example_env True (Some remote_head) (Some ''7''))"]
  by (simp add: example_info)

text \<open>
  C4. \<open>CheckBranch\<close> returns a \<open>BranchInfo\<close> in every world: it has no error
  result. When the \<^verbatim>\<open>show-ref\<close> query fails the branch counts as absent locally, and
  when the \<^verbatim>\<open>ls-remote\<close> query fails it counts as absent on the remote: if both fail
  the status is \<open>BranchNotFound\<close>, and if one fails the status is decided by the
  other side alone (that side only, or not found), with zero counts and no
  divergence.
\<close>

theorem CheckBranch_query_failure:
  fixes repoPath branch :: string and w :: world
  defines "lq \<equiv> fst (perform (Git repoPath
              [''show-ref'', ''--verify'', ''--quiet'', ''refs/heads/'' @ branch]) w)"
  defines "w1 \<equiv> snd (perform (Git repoPath
              [''show-ref'', ''--verify'', ''--quiet'', ''refs/heads/'' @ branch]) w)"
  defines "rq \<equiv> fst (perform (Git repoPath [''ls-remote'', ''--heads'', ''origin'', branch]) w1)"
  defines "info \<equiv> fst (CheckBranch repoPath branch w)"
  shows "(err lq \<noteq> None \<and> err rq \<noteq> None \<longrightarrow> Status info = BranchNotFound) \<and>
         (err lq \<noteq> None \<longrightarrow>
            fst (branchExistsLocal repoPath branch w) = False \<and>
            Status info = (if fst (branchExistsRemote repoPath branch w1)
                           then BranchRemoteOnly else BranchNotFound)) \<and>
         (err rq \<noteq> None \<longrightarrow>
            fst (branchExistsRemote repoPath branch w1) = False \<and>
            Status info = (if fst (branchExistsLocal repoPath branch w)
                           then BranchLocalOnly else BranchNotFound)) \<and>
         (err lq \<noteq> None \<or> err rq \<noteq> None \<longrightarrow>
            LocalAhead info = 0 \<and> RemoteBehind info = 0 \<and> \<not> Diverged info)"
  unfolding lq_def w1_def rq_def info_def
  by (simp add: CheckBranch_info branchExistsLocal_cases branchExistsRemote_cases Let_def)

theorem CheckBranch_query_failure_witness:
  "err (fst (perform (Git ''/r'' [''show-ref'', ''--verify'', ''--quiet'', ''refs/heads/exp/x''])
         (world_of (example_env False None None)))) \<noteq> None \<and>
   err (fst (perform (Git ''/r'' [''ls-remote'', ''--heads'', ''origin'', ''exp/x''])
         (snd (perform (Git ''/r'' [''show-ref'', ''--verify'', ''--quiet'', ''refs/heads/exp/x''])
           (world_of (example_env False None None)))))) \<noteq> None \<and>
   Status (fst (CheckBranch ''/r'' ''exp/x'' (world_of (example_env False None None))))
     = BranchNotFound \<and>
   err (fst (perform (Git ''/r'' [''show-ref'', ''--verify'', ''--quiet'', ''refs/heads/exp/x''])
         (world_of (example_env False (Some remote_head) None)))) \<noteq> None \<and>
   Status (fst (CheckBranch ''/r'' ''exp/x'' (world_of (example_env False (Some remote_head) None))))
     = BranchRemoteOnly \<and>
   err (fst (perform (Git ''/r'' [''ls-remote'', ''--heads'', ''origin'', ''exp/x''])
         (snd (perform (Git ''/r'' [''show-ref'', ''--verify'', ''--quiet'', ''refs/heads/exp/x''])
           (world_of (example_env True None None)))))) \<noteq> None \<and>
   Status (fst (CheckBranch ''/r'' ''exp/x'' (world_of (example_env True None None))))
     = BranchLocalOnly"
proof -
  have q: "err (fst (perform (Git ''/r'' [''show-ref'', ''--verify'', ''--quiet'', ''refs/heads/exp/x''])
         (world_of (example_env False r v)))) \<noteq> None" for r v
    by (simp add: perform_def world_of_def failed_def)
  have q': "err (fst (perform (Git ''/r'' [''ls-remote'', ''--heads'', ''origin'', ''exp/x''])
         (snd (perform (Git ''/r'' [''show-ref'', ''--verify'', ''--quiet'', ''refs/heads/exp/x''])
           (world_of (example_env l None v)))))) \<noteq> None" for l v
    by (simp add: perform_def world_of_def failed_def)
  show ?thesis
    using
      CheckBranch_query_failure [of "''/r''" "''exp/x''" "world_of (example_env False None None)"]
      CheckBranch_query_failure [of "''/r''" "''exp/x''"
        "world_of (example_env False (Some remote_head) None)"]
      CheckBranch_query_failure [of "''/r''" "''exp/x''" "world_of (example_env True None None)"]
      q [of None None] q [of "Some remote_head" None] q' [of False None] q' [of True None]
      example_remote [of False None] example_local [of True None None]
    by (simp add: branchExistsLocal_cases)
qed

section \<open>Experiment keys: the theorems\<close>

lemma dropWhile_slashes:
  "b \<noteq> [] \<Longrightarrow> CHR ''/'' \<notin> set b \<Longrightarrow>
   dropWhile IsPathSeparator (replicate k CHR ''/'' @ rev b @ q) = rev b @ q"
proof (induction k)
  case 0
  then have "last b \<noteq> CHR ''/''"
    by (metis last_in_set)
  with 0 have "\<not> IsPathSeparator (hd (rev b))" "rev b \<noteq> []"
    by (simp_all add: IsPathSeparator_def hd_rev)
  then show ?case by (cases "rev b") auto
next
  case (Suc k)
  then show ?case by (simp add: IsPathSeparator_def)
qed

lemma takeWhile_component:
  "CHR ''/'' \<notin> set b \<Longrightarrow> q = [] \<or> hd q = CHR ''/'' \<Longrightarrow>
   takeWhile (\<lambda>c. \<not> IsPathSeparator c) (rev b @ q) = rev b"
  by (cases q) (auto simp: IsPathSeparator_def takeWhile_tail)

lemma Base_component:
  assumes "b \<noteq> []" "CHR ''/'' \<notin> set b" "p = [] \<or> last p = CHR ''/''"
  shows "Base (p @ b @ replicate k CHR ''/'') = b"
proof -
  have "rev (p @ b @ replicate k CHR ''/'') = replicate k CHR ''/'' @ rev b @ rev p"
    by simp
  moreover have "rev p = [] \<or> hd (rev p) = CHR ''/''"
    using assms(3) by (auto simp: hd_rev)
  ultimately show ?thesis
    using assms(1,2)
    by (simp add: Base_def Let_def dropWhile_slashes takeWhile_component del: rev_append)
qed

lemma Base_slashes: "Base (replicate (Suc k) CHR ''/'') = ''/''"
proof -
  have "dropWhile IsPathSeparator (replicate n CHR ''/'') = []" for n
    by (induction n) (auto simp: IsPathSeparator_def)
  then show ?thesis
    by (simp add: Base_def Let_def del: replicate_Suc)
qed

text \<open>
  C7. \<open>ExperimentKey\<close> is a function of its two arguments alone (it reads nothing
  of the world), so equal arguments give equal keys, and the key is the base name of
  the repository path, then \<open>-\<close>, then the name. The base name is the final path
  component: for a path that ends in a component \<open>b\<close> without separator, after a
  directory part or none and before any number of trailing separators, it is \<open>b\<close>;
  for a path of separators only it is \<open>/\<close>, and for the empty path it is \<open>.\<close>.
\<close>

theorem ExperimentKey_basename:
  fixes repo name :: string
  shows "ExperimentKey repo name = Base repo @ ''-'' @ name \<and>
         (\<forall>repo' name'. repo' = repo \<and> name' = name
            \<longrightarrow> ExperimentKey repo' name' = ExperimentKey repo name) \<and>
         (\<forall>dir b k. b \<noteq> [] \<and> CHR ''/'' \<notin> set b \<and> repo = dir @ ''/'' @ b @ replicate k CHR ''/''
            \<longrightarrow> ExperimentKey repo name = b @ ''-'' @ name) \<and>
         (\<forall>b k. b \<noteq> [] \<and> CHR ''/'' \<notin> set b \<and> repo = b @ replicate k CHR ''/''
            \<longrightarrow> ExperimentKey repo name = b @ ''-'' @ name) \<and>
         (\<forall>k. repo = replicate (Suc k) CHR ''/'' \<longrightarrow> ExperimentKey repo name = ''/-'' @ name) \<and>
         (repo = [] \<longrightarrow> ExperimentKey repo name = ''.-'' @ name)"
proof -
  have "Base (dir @ ''/'' @ b @ replicate k CHR ''/'') = b"
    if "b \<noteq> []" "CHR ''/'' \<notin> set b" for dir b k
    using Base_component [of b "dir @ ''/''" k] that by simp
  moreover have "Base (b @ replicate k CHR ''/'') = b"
    if "b \<noteq> []" "CHR ''/'' \<notin> set b" for b k
    using Base_component [of b "[]" k] that by simp
  moreover have "Base [] = ''.''"
    by (simp add: Base_def)
  ultimately show ?thesis
    by (simp add: ExperimentKey_def Base_slashes del: replicate_Suc)
qed

theorem ExperimentKey_basename_witness:
  "ExperimentKey ''/home/dev/src/api/'' ''try-redis'' = ''api-try-redis'' \<and>
   ExperimentKey ''api'' ''try-redis'' = ''api-try-redis'' \<and>
   ExperimentKey ''//'' ''x'' = ''/-x'' \<and>
   ExperimentKey [] ''x'' = ''.-x''"
proof -
  have a: "''api'' \<noteq> [] \<and> CHR ''/'' \<notin> set ''api'' \<and>
        ''/home/dev/src/api/'' = ''/home/dev/src'' @ ''/'' @ ''api'' @ replicate 1 CHR ''/''"
    by simp
  have b: "''api'' \<noteq> [] \<and> CHR ''/'' \<notin> set ''api'' \<and> ''api'' = ''api'' @ replicate 0 CHR ''/''"
    by simp
  have c: "''//'' = replicate (Suc 1) CHR ''/''"
    by simp
  from ExperimentKey_basename [of "''/home/dev/src/api/''" "''try-redis''"] a
  have 1: "ExperimentKey ''/home/dev/src/api/'' ''try-redis'' = ''api'' @ ''-'' @ ''try-redis''"
    by blast
  from ExperimentKey_basename [of "''api''" "''try-redis''"] b
  have 2: "ExperimentKey ''api'' ''try-redis'' = ''api'' @ ''-'' @ ''try-redis''"
    by blast
  from ExperimentKey_basename [of "''//''" "''x''"] c
  have 3: "ExperimentKey ''//'' ''x'' = ''/-'' @ ''x''"
    by blast
  from ExperimentKey_basename [of "[]" "''x''"]
  have 4: "ExperimentKey [] ''x'' = ''.-'' @ ''x''"
    by blast
  from 1 2 3 4 show ?thesis by simp
qed

text \<open>
  C10. \<open>ExperimentKey\<close> is not injective in the repository path: two different
  paths with the same base name give the same key for the same name. So when an
  experiment of one repository is stored and then an equally named experiment of
  the other, the second \<open>AddExperiment\<close> leaves the state it would have left had the
  first never been stored, and the shared key holds the second record only.
\<close>

theorem ExperimentKey_collision:
  fixes repo1 repo2 name :: string and e1 e2 :: Experiment and s s1 :: State
  shows "\<not> inj (\<lambda>repo. ExperimentKey repo name) \<and>
         (repo1 \<noteq> repo2 \<and> Base repo1 = Base repo2
            \<longrightarrow> ExperimentKey repo1 name = ExperimentKey repo2 name) \<and>
         (Repo e1 \<noteq> Repo e2 \<and> Base (Repo e1) = Base (Repo e2) \<and> Name e1 = Name e2 \<and>
          AddExperiment e1 s = Some s1
            \<longrightarrow> AddExperiment e2 s1 = AddExperiment e2 s \<and>
                (\<exists>s2. AddExperiment e2 s1 = Some s2 \<and>
                   GetExperiment s2 (ExperimentKey (Repo e1) (Name e1)) = Some e2))"
proof -
  have "ExperimentKey ''/a/r'' name = ExperimentKey ''/b/r'' name"
    by (simp add: ExperimentKey_def Base_def IsPathSeparator_def)
  moreover have "''/a/r'' \<noteq> ''/b/r''"
    by simp
  ultimately have A: "\<not> inj (\<lambda>repo. ExperimentKey repo name)"
    unfolding inj_def by blast
  have B: "ExperimentKey repo1 name = ExperimentKey repo2 name" if "Base repo1 = Base repo2"
    using that by (simp add: ExperimentKey_def)
  have C: "AddExperiment e2 s1 = AddExperiment e2 s \<and>
                (\<exists>s2. AddExperiment e2 s1 = Some s2 \<and>
                   GetExperiment s2 (ExperimentKey (Repo e1) (Name e1)) = Some e2)"
    if "Base (Repo e1) = Base (Repo e2)" "Name e1 = Name e2" "AddExperiment e1 s = Some s1"
    using that
    by (auto simp: AddExperiment_def GetExperiment_def ExperimentKey_def Let_def
        split: option.splits)
  from A B C show ?thesis
    by blast
qed

theorem ExperimentKey_collision_witness:
  "''/work/a/api'' \<noteq> ''/work/b/api'' \<and>
   ExperimentKey ''/work/a/api'' ''spike'' = ExperimentKey ''/work/b/api'' ''spike'' \<and>
   (\<exists>s1 s2. AddExperiment (example_experiment ''/work/a/api'' ''spike'') empty_state = Some s1 \<and>
      AddExperiment (example_experiment ''/work/b/api'' ''spike'') s1 = Some s2 \<and>
      GetExperiment s1 ''api-spike'' = Some (example_experiment ''/work/a/api'' ''spike'') \<and>
      GetExperiment s2 ''api-spike'' = Some (example_experiment ''/work/b/api'' ''spike''))"
proof -
  have b: "Base ''/work/a/api'' = ''api''" "Base ''/work/b/api'' = ''api''"
    by (simp_all add: Base_def IsPathSeparator_def)
  obtain s1 where s1: "AddExperiment (example_experiment ''/work/a/api'' ''spike'') empty_state = Some s1"
    by (simp add: AddExperiment_def empty_state_def)
  have g1: "GetExperiment s1 ''api-spike'' = Some (example_experiment ''/work/a/api'' ''spike'')"
    using s1
    by (auto simp: AddExperiment_def GetExperiment_def empty_state_def ExperimentKey_def b
        example_experiment_def)
  have k: "ExperimentKey ''/work/a/api'' ''spike'' = ''api-spike''"
    by (simp add: ExperimentKey_def b)
  have r: "Repo (example_experiment ''/work/a/api'' ''spike'') = ''/work/a/api''"
    "Repo (example_experiment ''/work/b/api'' ''spike'') = ''/work/b/api''"
    "Name (example_experiment ''/work/a/api'' ''spike'') = ''spike''"
    "Name (example_experiment ''/work/b/api'' ''spike'') = ''spike''"
    by (simp_all add: example_experiment_def)
  have d: "''/work/a/api'' \<noteq> ''/work/b/api''"
    by simp
  note T = ExperimentKey_collision [of "''spike''" "''/work/a/api''" "''/work/b/api''"
      "example_experiment ''/work/a/api'' ''spike''" "example_experiment ''/work/b/api'' ''spike''"
      empty_state s1, unfolded r]
  have "\<exists>s2. AddExperiment (example_experiment ''/work/b/api'' ''spike'') s1 = Some s2 \<and>
          GetExperiment s2 (ExperimentKey ''/work/a/api'' ''spike'') =
            Some (example_experiment ''/work/b/api'' ''spike'')"
    by (rule T [THEN conjunct2, THEN conjunct2, THEN mp, THEN conjunct2]) (simp add: b s1)
  moreover
  have "ExperimentKey ''/work/a/api'' ''spike'' = ExperimentKey ''/work/b/api'' ''spike''"
    by (rule T [THEN conjunct2, THEN conjunct1, THEN mp]) (simp add: b)
  ultimately show ?thesis
    using s1 g1 d unfolding k by blast
qed

section \<open>Loading the state: the theorems\<close>

lemma experiments_of_append:
  "experiments_of (ms @ [m]) =
     experiments_of ms @ (case m of MExperiments v \<Rightarrow> [v] | _ \<Rightarrow> [])"
  by (induction ms rule: experiments_of.induct) (auto split: member.splits)

lemma projects_of_append:
  "projects_of (ms @ [m]) = projects_of ms @ (case m of MProjects v \<Rightarrow> [v] | _ \<Rightarrow> [])"
  by (induction ms rule: projects_of.induct) (auto split: member.splits)

lemma scratches_of_append:
  "scratches_of (ms @ [m]) = scratches_of ms @ (case m of MScratches v \<Rightarrow> [v] | _ \<Rightarrow> [])"
  by (induction ms rule: scratches_of.induct) (auto split: member.splits)

lemma decodeMember_other:
  "(\<forall>v. m \<noteq> MExperiments v) \<Longrightarrow> Experiments (decodeMember s m) = Experiments s"
  "(\<forall>v. m \<noteq> MProjects v) \<Longrightarrow> Projects (decodeMember s m) = Projects s"
  "(\<forall>v. m \<noteq> MScratches v) \<Longrightarrow> Scratches (decodeMember s m) = Scratches s"
  by (cases "(s, m)" rule: decodeMember.cases; simp)+

lemma decode_Experiments:
  "Experiments (foldl decodeMember s ms) =
     (if experiments_of ms = [] then Experiments s
      else if last (experiments_of ms) = JNull then None
      else Experiments (foldl decodeMember s ms))"
proof (induction ms rule: rev_induct)
  case Nil
  show ?case by simp
next
  case (snoc m ms)
  show ?case
  proof (cases "\<exists>v. m = MExperiments v")
    case True
    then show ?thesis by (auto simp: experiments_of_append)
  next
    case False
    then have "experiments_of (ms @ [m]) = experiments_of ms"
      by (cases m) (simp_all add: experiments_of_append)
    with False snoc show ?thesis
      by (simp add: decodeMember_other) metis
  qed
qed

lemma decode_Projects:
  "Projects (foldl decodeMember s ms) =
     (if projects_of ms = [] then Projects s
      else if last (projects_of ms) = JNull then None
      else Projects (foldl decodeMember s ms))"
proof (induction ms rule: rev_induct)
  case Nil
  show ?case by simp
next
  case (snoc m ms)
  show ?case
  proof (cases "\<exists>v. m = MProjects v")
    case True
    then show ?thesis by (auto simp: projects_of_append)
  next
    case False
    then have "projects_of (ms @ [m]) = projects_of ms"
      by (cases m) (simp_all add: projects_of_append)
    with False snoc show ?thesis
      by (simp add: decodeMember_other) metis
  qed
qed

lemma decode_Scratches:
  "Scratches (foldl decodeMember s ms) =
     (if scratches_of ms = [] then Scratches s
      else if last (scratches_of ms) = JNull then None
      else Scratches (foldl decodeMember s ms))"
proof (induction ms rule: rev_induct)
  case Nil
  show ?case by simp
next
  case (snoc m ms)
  show ?case
  proof (cases "\<exists>v. m = MScratches v")
    case True
    then show ?thesis by (auto simp: scratches_of_append)
  next
    case False
    then have "scratches_of (ms @ [m]) = scratches_of ms"
      by (cases m) (simp_all add: scratches_of_append)
    with False snoc show ?thesis
      by (simp add: decodeMember_other) metis
  qed
qed

lemma LoadState_cases:
  "LoadState cfg w =
     (case files w (StatePath w cfg) of
        NotExist \<Rightarrow> Inr empty_state
      | Unreadable e \<Rightarrow> Inl e
      | Contents data \<Rightarrow>
          (case Unmarshal data empty_state of
             Inl e \<Rightarrow> Inl e
           | Inr s \<Rightarrow>
               Inr (s\<lparr>Experiments := (if Experiments s = None then Some Map.empty
                                        else Experiments s),
                       Projects := (if Projects s = None then Some Map.empty else Projects s),
                       Scratches := (if Scratches s = None then Some Map.empty
                                     else Scratches s)\<rparr>)))"
  by (simp add: LoadState_def empty_state_def Let_def split: state_file.splits sum.splits)

text \<open>
  C9. Every state \<open>LoadState\<close> returns has its three maps non-nil. When the state
  file does not exist the result is the empty state with version 1, and no error.
  When the file holds an object that decodes without a type error, \<open>LoadState\<close>
  returns a state, and each map the object omits or nulls is the empty map in it.
\<close>

theorem LoadState_maps:
  fixes cfg :: Config and w :: world
  shows "(\<forall>s. LoadState cfg w = Inr s
            \<longrightarrow> Experiments s \<noteq> None \<and> Projects s \<noteq> None \<and> Scratches s \<noteq> None) \<and>
         (files w (StatePath w cfg) = NotExist
            \<longrightarrow> LoadState cfg w =
                  Inr \<lparr>Version = 1, Experiments = Some Map.empty, Projects = Some Map.empty,
                       Scratches = Some Map.empty\<rparr>) \<and>
         (\<forall>ms. files w (StatePath w cfg) = Contents (DObject ms) \<and> List.map_filter mismatch ms = []
            \<longrightarrow> (\<exists>s. LoadState cfg w = Inr s \<and>
                   (omits_or_nulls (experiments_of ms) \<longrightarrow> Experiments s = Some Map.empty) \<and>
                   (omits_or_nulls (projects_of ms) \<longrightarrow> Projects s = Some Map.empty) \<and>
                   (omits_or_nulls (scratches_of ms) \<longrightarrow> Scratches s = Some Map.empty)))"
proof -
  have A: "Experiments s \<noteq> None \<and> Projects s \<noteq> None \<and> Scratches s \<noteq> None"
    if "LoadState cfg w = Inr s" for s
  proof (cases "files w (StatePath w cfg)")
    case NotExist
    with that have "s = empty_state"
      by (simp add: LoadState_cases eq_commute)
    then show ?thesis by (simp add: empty_state_def)
  next
    case (Unreadable e)
    with that show ?thesis by (simp add: LoadState_cases)
  next
    case (Contents data)
    show ?thesis
    proof (cases "Unmarshal data empty_state")
      case (Inl e)
      with that Contents show ?thesis by (simp add: LoadState_cases)
    next
      case (Inr s0)
      with that Contents
      have "s = s0\<lparr>Experiments := (if Experiments s0 = None then Some Map.empty
                                        else Experiments s0),
                    Projects := (if Projects s0 = None then Some Map.empty else Projects s0),
                    Scratches := (if Scratches s0 = None then Some Map.empty
                                  else Scratches s0)\<rparr>"
        by (simp add: LoadState_cases)
      then show ?thesis by simp
    qed
  qed
  have B: "LoadState cfg w =
      Inr \<lparr>Version = 1, Experiments = Some Map.empty, Projects = Some Map.empty,
           Scratches = Some Map.empty\<rparr>"
    if "files w (StatePath w cfg) = NotExist"
    using that by (simp add: LoadState_cases empty_state_def)
  have C: "\<exists>s. LoadState cfg w = Inr s \<and>
           (omits_or_nulls (experiments_of ms) \<longrightarrow> Experiments s = Some Map.empty) \<and>
           (omits_or_nulls (projects_of ms) \<longrightarrow> Projects s = Some Map.empty) \<and>
           (omits_or_nulls (scratches_of ms) \<longrightarrow> Scratches s = Some Map.empty)"
    if a: "files w (StatePath w cfg) = Contents (DObject ms)" "List.map_filter mismatch ms = []"
    for ms
  proof -
    define s where "s = foldl decodeMember empty_state ms"
    have u: "Unmarshal (DObject ms) empty_state = Inr s"
      using a(2) by (simp add: Unmarshal_def s_def)
    have e: "Experiments s = None \<or> Experiments s = Some Map.empty"
      if "omits_or_nulls (experiments_of ms)"
      using that decode_Experiments [of empty_state ms]
      unfolding s_def omits_or_nulls_def by (cases "experiments_of ms = []") (simp_all add: empty_state_def)
    have p: "Projects s = None \<or> Projects s = Some Map.empty"
      if "omits_or_nulls (projects_of ms)"
      using that decode_Projects [of empty_state ms]
      unfolding s_def omits_or_nulls_def by (cases "projects_of ms = []") (simp_all add: empty_state_def)
    have c: "Scratches s = None \<or> Scratches s = Some Map.empty"
      if "omits_or_nulls (scratches_of ms)"
      using that decode_Scratches [of empty_state ms]
      unfolding s_def omits_or_nulls_def by (cases "scratches_of ms = []") (simp_all add: empty_state_def)
    let ?s = "s\<lparr>Experiments := (if Experiments s = None then Some Map.empty else Experiments s),
                 Projects := (if Projects s = None then Some Map.empty else Projects s),
                 Scratches := (if Scratches s = None then Some Map.empty else Scratches s)\<rparr>"
    have l: "LoadState cfg w = Inr ?s"
      using a(1) u by (simp add: LoadState_cases)
    have "omits_or_nulls (experiments_of ms) \<longrightarrow> Experiments ?s = Some Map.empty"
      using e by fastforce
    moreover have "omits_or_nulls (projects_of ms) \<longrightarrow> Projects ?s = Some Map.empty"
      using p by fastforce
    moreover have "omits_or_nulls (scratches_of ms) \<longrightarrow> Scratches ?s = Some Map.empty"
      using c by fastforce
    ultimately show ?thesis
      using l by blast
  qed
  from A B C show ?thesis
    by blast
qed

lemma example_StatePath:
  "StatePath (with_state_file doc (world_of e)) example_config = ''/home/dev/clade/state.json''"
  "StatePath (world_of e) example_config = ''/home/dev/clade/state.json''"
  by (simp_all add: StatePath_def GetBaseDir_def ExpandPath_def example_config_def
      with_state_file_def world_of_def Join_def Clean_def cleanStep_def IsPathSeparator_def)

theorem LoadState_maps_witness:
  "LoadState example_config (world_of (example_env False None None)) = Inr empty_state \<and>
   (\<exists>s. LoadState example_config
          (with_state_file example_document (world_of (example_env False None None))) = Inr s \<and>
        Experiments s = Some Map.empty \<and> Projects s \<noteq> None \<and> Scratches s = Some Map.empty)"
proof -
  let ?w = "world_of (example_env False None None)"
  let ?w' = "with_state_file example_document ?w"
  have 1: "files ?w (StatePath ?w example_config) = NotExist"
    by (simp add: example_StatePath) (simp add: world_of_def)
  have 2: "files ?w' (StatePath ?w' example_config) =
             Contents (DObject [MVersion (JVal 1), MExperiments JNull,
               MProjects (JVal [''shop'' \<mapsto> None]), MOther]) \<and>
           List.map_filter mismatch [MVersion (JVal 1), MExperiments JNull,
               MProjects (JVal [''shop'' \<mapsto> None]), MOther] = []"
    by (simp add: example_StatePath) (simp add: with_state_file_def example_document_def
        List.map_filter_simps)
  have 3: "omits_or_nulls (experiments_of [MVersion (JVal 1), MExperiments JNull,
               MProjects (JVal [''shop'' \<mapsto> None]), MOther])"
          "omits_or_nulls (scratches_of [MVersion (JVal 1), MExperiments JNull,
               MProjects (JVal [''shop'' \<mapsto> None]), MOther])"
    by (simp_all add: omits_or_nulls_def)
  note T = LoadState_maps [of example_config ?w] and T' = LoadState_maps [of example_config ?w']
  have "LoadState example_config ?w = Inr empty_state"
    using T 1 by (simp add: empty_state_def)
  moreover have "\<exists>s. LoadState example_config ?w' = Inr s \<and>
        Experiments s = Some Map.empty \<and> Projects s \<noteq> None \<and> Scratches s = Some Map.empty"
    using T' 2 3 by blast
  ultimately show ?thesis by blast
qed

section \<open>Name validation: the theorems\<close>

lemma matchWhole_NoMatch [simp]: "matchWhole NoMatch s = False"
  by (induction s) auto

lemma matchWhole_EmptyMatch [simp]: "matchWhole EmptyMatch s = (s = [])"
  by (cases s) auto

lemma matchWhole_Alternate [simp]:
  "matchWhole (Alternate r1 r2) s = (matchWhole r1 s \<or> matchWhole r2 s)"
  by (induction s arbitrary: r1 r2) auto

lemma matchWhole_CharClass:
  "matchWhole (CharClass ranges) s = (\<exists>c. s = [c] \<and> inClass ranges c)"
  by (cases s) auto

lemma matchWhole_Concat:
  "matchWhole (Concat r1 r2) s =
     (\<exists>u v. s = u @ v \<and> matchWhole r1 u \<and> matchWhole r2 v)"
proof (induction s arbitrary: r1 r2)
  case Nil
  then show ?case by simp
next
  case (Cons c cs)
  have "(\<exists>u v. c # cs = u @ v \<and> matchWhole r1 u \<and> matchWhole r2 v) =
        ((nullable r1 \<and> matchWhole r2 (c # cs)) \<or>
         (\<exists>u v. cs = u @ v \<and> matchWhole (after c r1) u \<and> matchWhole r2 v))"
    (is "?L = ?R")
  proof
    assume ?L
    then obtain u v where uv: "c # cs = u @ v" "matchWhole r1 u" "matchWhole r2 v"
      by blast
    show ?R
    proof (cases u)
      case Nil
      with uv show ?thesis by simp
    next
      case (Cons a u')
      with uv have "cs = u' @ v" "matchWhole (after c r1) u'"
        by auto
      with uv(3) show ?thesis by blast
    qed
  next
    assume ?R
    then show ?L
    proof
      assume "nullable r1 \<and> matchWhole r2 (c # cs)"
      then have "c # cs = [] @ (c # cs) \<and> matchWhole r1 [] \<and> matchWhole r2 (c # cs)"
        by simp
      then show ?L by blast
    next
      assume "\<exists>u v. cs = u @ v \<and> matchWhole (after c r1) u \<and> matchWhole r2 v"
      then obtain u v where "cs = u @ v" "matchWhole (after c r1) u" "matchWhole r2 v"
        by blast
      then have "c # cs = (c # u) @ v \<and> matchWhole r1 (c # u) \<and> matchWhole r2 v"
        by simp
      then show ?L by blast
    qed
  qed
  then show ?case
    using Cons.IH by auto
qed

lemma matchWhole_Star_class:
  "matchWhole (Star (CharClass ranges)) s = (\<forall>c \<in> set s. inClass ranges c)"
proof (induction s)
  case Nil
  then show ?case by simp
next
  case (Cons c cs)
  have "matchWhole (Star (CharClass ranges)) (c # cs) =
        (\<exists>u v. cs = u @ v \<and> matchWhole (after c (CharClass ranges)) u \<and>
               matchWhole (Star (CharClass ranges)) v)"
    by (simp add: matchWhole_Concat)
  also have "\<dots> = (inClass ranges c \<and> matchWhole (Star (CharClass ranges)) cs)"
    by (cases "inClass ranges c") simp_all
  finally show ?case
    using Cons.IH by simp
qed


lemma alnum_class:
  "inClass [(CHR ''a'', CHR ''z''), (CHR ''A'', CHR ''Z''), (CHR ''0'', CHR ''9'')] c = is_alnum c"
proof (cases c)
  case (Char b0 b1 b2 b3 b4 b5 b6 b7)
  then show ?thesis
    unfolding inClass_def is_alnum_def
    by (cases b0; cases b1; cases b2; cases b3; cases b4; cases b5; cases b6; cases b7) simp_all
qed


lemma name_char_class:
  "inClass [(CHR ''a'', CHR ''z''), (CHR ''A'', CHR ''Z''), (CHR ''0'', CHR ''9''),
            (CHR ''_'', CHR ''_''), (CHR ''-'', CHR ''-'')] c = is_name_char c"
proof (cases c)
  case (Char b0 b1 b2 b3 b4 b5 b6 b7)
  then show ?thesis
    unfolding inClass_def is_name_char_def is_alnum_def
    by (cases b0; cases b1; cases b2; cases b3; cases b4; cases b5; cases b6; cases b7) simp_all
qed

lemma matchWhole_namePattern:
  "matchWhole namePattern s =
     (s \<noteq> [] \<and> is_alnum (hd s) \<and> (\<forall>c \<in> set (tl s). is_name_char c))"
proof (cases s)
  case Nil
  then show ?thesis by (simp add: namePattern_def)
next
  case (Cons c cs)
  then show ?thesis
    by (simp add: namePattern_def matchWhole_Concat matchWhole_Star_class
        alnum_class name_char_class Cons_eq_append_conv) 
qed

text \<open>
  C6. The name validation of exp, feat and project creation (\<open>isValidExpName\<close>)
  and that of scratch (\<open>isValidScratchName\<close>) accept a string iff it is not empty,
  its first character is an ASCII letter or digit, and each further character is an
  ASCII letter, a digit, a hyphen or an underscore. The empty string and every
  string that contains another character are rejected.
\<close>

theorem isValidExpName_pattern:
  fixes s :: string
  shows "(isValidExpName s \<longleftrightarrow>
            s \<noteq> [] \<and> is_alnum (hd s) \<and> (\<forall>c \<in> set (tl s). is_name_char c)) \<and>
         (isValidScratchName s \<longleftrightarrow> isValidExpName s) \<and>
         \<not> isValidExpName [] \<and>
         ((\<exists>c \<in> set s. \<not> is_name_char c) \<longrightarrow> \<not> isValidExpName s)"
proof -
  have 1: "isValidExpName s \<longleftrightarrow>
            s \<noteq> [] \<and> is_alnum (hd s) \<and> (\<forall>c \<in> set (tl s). is_name_char c)"
    by (simp add: isValidExpName_def matchWhole_namePattern)
  have 2: "\<not> isValidExpName s" if "c \<in> set s" "\<not> is_name_char c" for c
  proof (cases s)
    case Nil
    with that show ?thesis by simp
  next
    case (Cons a cs)
    with that have "(c = a \<and> \<not> is_alnum a) \<or> (c \<in> set cs \<and> \<not> is_name_char c)"
      by (auto simp: is_name_char_def)
    with Cons show ?thesis
      unfolding 1 by auto
  qed
  from 1 2 show ?thesis
    by (auto simp: isValidScratchName_def isValidExpName_def)
qed

theorem isValidExpName_pattern_witness:
  "isValidExpName ''try-redis'' \<and> isValidExpName ''PROJ-1234'' \<and> isValidExpName ''a_b'' \<and>
   isValidScratchName ''x'' \<and>
   \<not> isValidExpName [] \<and> \<not> isValidExpName ''-x'' \<and> \<not> isValidExpName ''_x'' \<and>
   \<not> isValidExpName ''a b'' \<and> \<not> isValidExpName ''a/b'' \<and>
   \<not> isValidExpName (''ab'' @ [CHR 0x0A])"
  using isValidExpName_pattern [of "''try-redis''"] isValidExpName_pattern [of "''PROJ-1234''"]
    isValidExpName_pattern [of "''a_b''"] isValidExpName_pattern [of "''x''"]
    isValidExpName_pattern [of "[]"] isValidExpName_pattern [of "''-x''"]
    isValidExpName_pattern [of "''_x''"] isValidExpName_pattern [of "''a b''"]
    isValidExpName_pattern [of "''a/b''"] isValidExpName_pattern [of "''ab'' @ [CHR 0x0A]"]
  by (simp add: is_name_char_def is_alnum_def)

section \<open>Registering repositories: the theorems\<close>









section \<open>Choosing how to create a worktree: the theorems\<close>

lemma example_resolveRepo:
  "resolveRepo example_config ''api'' (world_of e) = (Inr ''/work/a/api'', world_of e)"
  by (simp add: resolveRepo_def example_config_def ExpandPath_def)

lemma offline_check:
  "CheckBranch ''/work/a/api'' ''exp/x'' (snd (Fetch ''/work/a/api'' offline_world)) =
     (\<lparr>Status = BranchNotFound, LocalAhead = 0, RemoteBehind = 0, Diverged = False\<rparr>,
      offline_world\<lparr>trace :=
        [Git ''/work/a/api'' [''fetch'', ''origin''],
         Git ''/work/a/api'' [''show-ref'', ''--verify'', ''--quiet'', ''refs/heads/exp/x''],
         Git ''/work/a/api'' [''ls-remote'', ''--heads'', ''origin'', ''exp/x'']]\<rparr>)"
  by (simp add: offline_world_def world_of_def Fetch_def perform_def CheckBranch_def
      branchExistsLocal_def branchExistsRemote_def succeeded_def failed_def)

lemma example_dirs:
  "ExperimentsDir (w\<lparr>trace := t\<rparr>) example_config = ExperimentsDir w example_config"
  "ExperimentsDir (world_of e) example_config = ''/home/dev/clade/experiments''"
  "ExperimentKey ''/work/a/api'' ''x'' = ''api-x''"
  "Join [''/home/dev/clade/experiments'', ''api-x''] = ''/home/dev/clade/experiments/api-x''"
  by (simp_all add: ExperimentsDir_def GetBaseDir_def ExpandPath_def example_config_def
      world_of_def Join_def Clean_def cleanStep_def IsPathSeparator_def ExperimentKey_def Base_def)

lemma local_check:
  "CheckBranch ''/work/a/api'' ''exp/x'' (snd (Fetch ''/work/a/api'' local_world)) =
     (\<lparr>Status = BranchLocalOnly, LocalAhead = 0, RemoteBehind = 0, Diverged = False\<rparr>,
      local_world\<lparr>trace :=
        [Git ''/work/a/api'' [''fetch'', ''origin''],
         Git ''/work/a/api'' [''show-ref'', ''--verify'', ''--quiet'', ''refs/heads/exp/x''],
         Git ''/work/a/api'' [''ls-remote'', ''--heads'', ''origin'', ''exp/x'']]\<rparr>)"
  by (simp add: local_world_def world_of_def Fetch_def perform_def CheckBranch_def
      branchExistsLocal_def branchExistsRemote_def succeeded_def failed_def)

text \<open>
  C3, as amended. In project creation the \<^verbatim>\<open>switch\<close> over the status found by
  the preflight check runs exactly the strategy the specification assigns to the
  status: \<open>CreateWorktreeNew\<close> iff the status is \<open>BranchNotFound\<close>,
  \<open>CreateWorktreeFromBranch\<close> iff it is \<open>BranchLocalOnly\<close> or \<open>BranchBoth\<close>, and
  \<open>CreateWorktreeTrackRemote\<close> iff it is \<open>BranchRemoteOnly\<close>. Adopting an orphaned
  branch on resume, once the repository is resolved: when the status is
  \<open>BranchNotFound\<close> it returns the error "branch not found" right after the check and
  creates no worktree; otherwise, after the experiments directory is made, it runs
  the same strategy for the status (\<open>CreateWorktreeFromBranch\<close> or
  \<open>CreateWorktreeTrackRemote\<close>), returns its error if it fails, and goes on to record
  the experiment if it succeeds.
\<close>

theorem worktree_strategy:
  fixes info :: BranchInfo and cfg :: Config and state :: State and w :: world
    and sourcePath worktreePath branchName name resumeRepoFlag resumeAgentFlag :: string
  shows
   "runProject_switch info sourcePath worktreePath branchName w =
      run_strategy (spec_strategy (Status info)) sourcePath worktreePath branchName w \<and>
    (spec_strategy (Status info) = FreshBranch) = (Status info = BranchNotFound) \<and>
    (spec_strategy (Status info) = ExistingLocalBranch) =
      (Status info = BranchLocalOnly \<or> Status info = BranchBoth) \<and>
    (spec_strategy (Status info) = TrackRemoteBranch) = (Status info = BranchRemoteOnly) \<and>
    (\<forall>repoPath.
       fst (resolveRepo cfg resumeRepoFlag w) = Inr repoPath \<longrightarrow>
       (let branch = ''exp/'' @ name;
            w2 = snd (Fetch repoPath (snd (resolveRepo cfg resumeRepoFlag w)));
            found = fst (CheckBranch repoPath branch w2);
            w3 = snd (CheckBranch repoPath branch w2);
            expPath = Join [ExperimentsDir w3 cfg, ExperimentKey repoPath name];
            made = fst (perform (MkdirAll (ExperimentsDir w3 cfg)) w3);
            w4 = snd (perform (MkdirAll (ExperimentsDir w3 cfg)) w3);
            created = run_strategy (spec_strategy (Status found)) repoPath expPath branch w4
        in adoptOrphanedBranch cfg state name resumeRepoFlag resumeAgentFlag w =
             (if Status found = BranchNotFound then (Return (Some ''branch not found''), w3)
              else case err made of
                     Some e \<Rightarrow> (Return (Some e), w4)
                   | None \<Rightarrow>
                       (case fst created of
                          Some e \<Rightarrow> (Return (Some e), snd created)
                        | None \<Rightarrow>
                            adoptOrphanedBranch_finish cfg state name repoPath expPath branch
                              resumeAgentFlag (snd created)))))"
proof -
  have 1: "runProject_switch info sourcePath worktreePath branchName w =
      run_strategy (spec_strategy (Status info)) sourcePath worktreePath branchName w"
    by (cases "Status info") (simp_all add: runProject_switch_def)
  have 2: "(spec_strategy (Status info) = FreshBranch) = (Status info = BranchNotFound)"
    "(spec_strategy (Status info) = ExistingLocalBranch) =
      (Status info = BranchLocalOnly \<or> Status info = BranchBoth)"
    "(spec_strategy (Status info) = TrackRemoteBranch) = (Status info = BranchRemoteOnly)"
    by (cases "Status info"; simp)+
  have sw: "s \<noteq> BranchNotFound \<Longrightarrow> Status i = s \<Longrightarrow>
      adoptOrphanedBranch_switch i r p b v = run_strategy (spec_strategy s) r p b v" for s i r p b v
    by (cases s) (simp_all add: adoptOrphanedBranch_switch_def)
  have 3: "let branch = ''exp/'' @ name;
            w2 = snd (Fetch repoPath (snd (resolveRepo cfg resumeRepoFlag w)));
            found = fst (CheckBranch repoPath branch w2);
            w3 = snd (CheckBranch repoPath branch w2);
            expPath = Join [ExperimentsDir w3 cfg, ExperimentKey repoPath name];
            made = fst (perform (MkdirAll (ExperimentsDir w3 cfg)) w3);
            w4 = snd (perform (MkdirAll (ExperimentsDir w3 cfg)) w3);
            created = run_strategy (spec_strategy (Status found)) repoPath expPath branch w4
        in adoptOrphanedBranch cfg state name resumeRepoFlag resumeAgentFlag w =
             (if Status found = BranchNotFound then (Return (Some ''branch not found''), w3)
              else case err made of
                     Some e \<Rightarrow> (Return (Some e), w4)
                   | None \<Rightarrow>
                       (case fst created of
                          Some e \<Rightarrow> (Return (Some e), snd created)
                        | None \<Rightarrow>
                            adoptOrphanedBranch_finish cfg state name repoPath expPath branch
                              resumeAgentFlag (snd created)))"
    if "fst (resolveRepo cfg resumeRepoFlag w) = Inr repoPath" for repoPath
    using that
    by (auto simp: adoptOrphanedBranch_def Let_def sw split: prod.splits option.splits)
  from 1 2 3 show ?thesis
    by blast
qed

theorem worktree_strategy_witness:
  "runProject_switch \<lparr>Status = BranchNotFound, LocalAhead = 0, RemoteBehind = 0, Diverged = False\<rparr>
      ''/work/a/api'' ''/p/api'' ''feat/x'' offline_world =
     CreateWorktreeNew ''/work/a/api'' ''/p/api'' ''feat/x'' offline_world \<and>
   runProject_switch \<lparr>Status = BranchBoth, LocalAhead = 2, RemoteBehind = 3, Diverged = True\<rparr>
      ''/work/a/api'' ''/p/api'' ''feat/x'' offline_world =
     CreateWorktreeFromBranch ''/work/a/api'' ''/p/api'' ''feat/x'' offline_world \<and>
   runProject_switch \<lparr>Status = BranchRemoteOnly, LocalAhead = 0, RemoteBehind = 0, Diverged = False\<rparr>
      ''/work/a/api'' ''/p/api'' ''feat/x'' offline_world =
     CreateWorktreeTrackRemote ''/work/a/api'' ''/p/api'' ''feat/x'' offline_world \<and>
   adoptOrphanedBranch example_config empty_state ''x'' ''api'' [] local_world =
     adoptOrphanedBranch_finish example_config empty_state ''x'' ''/work/a/api''
       ''/home/dev/clade/experiments/api-x'' ''exp/x'' []
       (snd (CreateWorktreeFromBranch ''/work/a/api'' ''/home/dev/clade/experiments/api-x''
               ''exp/x''
               (snd (perform (MkdirAll ''/home/dev/clade/experiments'')
                  (snd (CheckBranch ''/work/a/api'' ''exp/x''
                          (snd (Fetch ''/work/a/api'' local_world))))))))"
proof -
  have r: "resolveRepo example_config ''api'' local_world = (Inr ''/work/a/api'', local_world)"
    unfolding local_world_def by (rule example_resolveRepo)
  have d: "ExperimentsDir (local_world\<lparr>trace := t\<rparr>) example_config = ''/home/dev/clade/experiments''" for t
    by (simp add: example_dirs local_world_def)
  have d0: "ExperimentsDir local_world example_config = ''/home/dev/clade/experiments''"
    by (simp add: example_dirs local_world_def)
  have m: "err (fst (perform (MkdirAll p) (local_world\<lparr>trace := t\<rparr>))) = None" for p t
    by (simp add: perform_def local_world_def world_of_def succeeded_def)
  have c: "fst (CreateWorktreeFromBranch ''/work/a/api'' p ''exp/x''
                 (snd (perform (MkdirAll q) (local_world\<lparr>trace := t\<rparr>)))) = None" for p q t
    by (simp add: CreateWorktreeFromBranch_def perform_def local_world_def world_of_def
        succeeded_def)
  note T = worktree_strategy [where cfg = example_config and state = empty_state
      and name = "''x''" and resumeRepoFlag = "''api''" and resumeAgentFlag = "[]"
      and w = local_world and sourcePath = "''/work/a/api''" and worktreePath = "''/p/api''"
      and branchName = "''feat/x''"]
  have 4: "adoptOrphanedBranch example_config empty_state ''x'' ''api'' [] local_world =
     adoptOrphanedBranch_finish example_config empty_state ''x'' ''/work/a/api''
       ''/home/dev/clade/experiments/api-x'' ''exp/x'' []
       (snd (CreateWorktreeFromBranch ''/work/a/api'' ''/home/dev/clade/experiments/api-x''
               ''exp/x''
               (snd (perform (MkdirAll ''/home/dev/clade/experiments'')
                  (snd (CheckBranch ''/work/a/api'' ''exp/x''
                          (snd (Fetch ''/work/a/api'' local_world))))))))"
    using T [where info = "\<lparr>Status = BranchBoth, LocalAhead = 2, RemoteBehind = 3, Diverged = True\<rparr>",
        THEN conjunct2, THEN conjunct2, THEN conjunct2, THEN conjunct2, rule_format,
        of "''/work/a/api''"]
    by (simp add: r local_check Let_def d d0 m c example_dirs)
  have P: "runProject_switch i ''/work/a/api'' ''/p/api'' ''feat/x'' offline_world =
      run_strategy (spec_strategy (Status i)) ''/work/a/api'' ''/p/api'' ''feat/x'' offline_world"
    for i
    using worktree_strategy [where info = i and w = offline_world
      and sourcePath = "''/work/a/api''" and worktreePath = "''/p/api''"
      and branchName = "''feat/x''"]
    by (rule conjunct1)
  from 4 P [of "\<lparr>Status = BranchNotFound, LocalAhead = 0, RemoteBehind = 0, Diverged = False\<rparr>"]
    P [of "\<lparr>Status = BranchBoth, LocalAhead = 2, RemoteBehind = 3, Diverged = True\<rparr>"]
    P [of "\<lparr>Status = BranchRemoteOnly, LocalAhead = 0, RemoteBehind = 0, Diverged = False\<rparr>"]
  show ?thesis
    by simp
qed

text \<open>
  C3, as stated, fails for resume. In a world where the branch \<open>exp/x\<close> exists
  neither locally nor on the remote the status is \<open>BranchNotFound\<close>, and
  \<open>adoptOrphanedBranch\<close> does not create a fresh branch: it returns "branch not found"
  after the fetch and the two existence queries, and runs no \<^verbatim>\<open>git worktree add\<close>.
\<close>

theorem worktree_strategy_counterexample:
  "fst (resolveRepo example_config ''api'' offline_world) = Inr ''/work/a/api'' \<and>
   Status (fst (CheckBranch ''/work/a/api'' ''exp/x'' (snd (Fetch ''/work/a/api'' offline_world))))
     = BranchNotFound \<and>
   fst (adoptOrphanedBranch example_config empty_state ''x'' ''api'' [] offline_world)
     = Return (Some ''branch not found'') \<and>
   trace (snd (adoptOrphanedBranch example_config empty_state ''x'' ''api'' [] offline_world)) =
     [Git ''/work/a/api'' [''fetch'', ''origin''],
      Git ''/work/a/api'' [''show-ref'', ''--verify'', ''--quiet'', ''refs/heads/exp/x''],
      Git ''/work/a/api'' [''ls-remote'', ''--heads'', ''origin'', ''exp/x'']]"
proof -
  have r: "resolveRepo example_config ''api'' offline_world = (Inr ''/work/a/api'', offline_world)"
    unfolding offline_world_def by (rule example_resolveRepo)
  show ?thesis
    by (simp add: adoptOrphanedBranch_def r offline_check Let_def case_prod_beta)
qed

section \<open>A branch that exists already: the theorems\<close>

lemma nothing_created_refl [simp]: "nothing_created w w"
  by (simp add: nothing_created_def)

lemma nothing_created_trans:
  "nothing_created w w1 \<Longrightarrow> nothing_created w1 w2 \<Longrightarrow> nothing_created w w2"
  by (auto simp: nothing_created_def)

lemma perform_quiet:
  "\<not> is_creation e \<Longrightarrow> nothing_created w w0 \<Longrightarrow> nothing_created w (snd (perform e w0))"
  by (auto simp: nothing_created_def perform_def)

lemma GetRepoRoot_quiet:
  "nothing_created w w0 \<Longrightarrow> nothing_created w (snd (GetRepoRoot p w0))"
  by (auto simp: GetRepoRoot_def case_prod_beta split: option.splits intro!: perform_quiet)

lemma IsGitRepo_quiet:
  "nothing_created w w0 \<Longrightarrow> nothing_created w (snd (IsGitRepo p w0))"
  by (simp add: IsGitRepo_def case_prod_beta GetRepoRoot_quiet)

lemma Fetch_quiet:
  "nothing_created w w0 \<Longrightarrow> nothing_created w (snd (Fetch p w0))"
  by (simp add: Fetch_def case_prod_beta perform_quiet)

lemma CheckBranch_quiet:
  "nothing_created w w0 \<Longrightarrow> nothing_created w (snd (CheckBranch p b w0))"
  by (simp add: CheckBranch_world branchExistsLocal_cases branchExistsRemote_cases
      getBranchDivergence_cases Let_def perform_quiet)

lemma resolveRepo_quiet:
  "nothing_created w w0 \<Longrightarrow> nothing_created w (snd (resolveRepo cfg flag w0))"
  by (auto simp: resolveRepo_def Let_def case_prod_beta split: option.splits
      intro!: perform_quiet GetRepoRoot_quiet IsGitRepo_quiet)

lemma showRepoPicker_quiet:
  "nothing_created w w0 \<Longrightarrow> nothing_created w (snd (showRepoPicker cfg w0))"
  by (auto simp: showRepoPicker_def Let_def case_prod_beta split: option.splits
      intro!: perform_quiet GetRepoRoot_quiet IsGitRepo_quiet)

lemma resolveRepoWithPick_quiet:
  "nothing_created w w0 \<Longrightarrow> nothing_created w (snd (resolveRepoWithPick cfg flag pick w0))"
  by (simp add: resolveRepoWithPick_def resolveRepo_quiet showRepoPicker_quiet)

lemma launchAgent_quiet:
  "nothing_created w w0 \<Longrightarrow> nothing_created w (snd (launchAgent cfg d a w0))"
  by (simp add: launchAgent_def Let_def case_prod_beta perform_quiet)

lemma launchSession_quiet:
  "nothing_created w w0 \<Longrightarrow> nothing_created w (snd (launchSession cfg d e na ne w0))"
  by (simp add: launchSession_def Let_def case_prod_beta perform_quiet)

lemma then_quiet:
  "nothing_created w (snd p) \<Longrightarrow>
   (\<And>x w1. nothing_created w w1 \<Longrightarrow> nothing_created w (snd (g x w1))) \<Longrightarrow>
   nothing_created w (snd (case p of (x, w1) \<Rightarrow> g x w1))"
  by (cases p) simp

lemma runExp_prepare_quiet:
  "nothing_created w (snd (runExp_prepare loaded args expRepoFlag expAgentFlag w))"
  unfolding runExp_prepare_def
  by (auto simp: Let_def split: sum.splits option.splits
      intro!: then_quiet perform_quiet resolveRepo_quiet launchAgent_quiet)

lemma runFeat_prepare_quiet:
  "nothing_created w (snd (runFeat_prepare loaded args flags w))"
  unfolding runFeat_prepare_def
  by (auto simp: Let_def split: sum.splits option.splits
      intro!: then_quiet perform_quiet resolveRepoWithPick_quiet launchSession_quiet)

lemma CreateWorktreeNew_exists:
  "Status (fst (CheckBranch repoPath branch (snd (Fetch repoPath w)))) \<noteq> BranchNotFound \<Longrightarrow>
   CreateWorktreeNew repoPath worktreePath branch w =
     (Some (''branch '' @ [CHR 0x27] @ branch @ [CHR 0x27] @ '' already exists''),
      snd (CheckBranch repoPath branch (snd (Fetch repoPath w))))"
  by (simp add: CreateWorktreeNew_def Let_def case_prod_beta)

lemma runExp_create_exists:
  "err (fst (perform (MkdirAll (ExperimentsDir w (c_cfg c))) w)) = None \<Longrightarrow>
   Status (fst (CheckBranch (c_repoPath c) (c_branch c)
                  (snd (perform (MkdirAll (ExperimentsDir w (c_cfg c))) w)))) \<noteq> BranchNotFound \<Longrightarrow>
   runExp_create c expAgentFlag w =
     (Return (Some ''branch already exists''),
      snd (CheckBranch (c_repoPath c) (c_branch c)
             (snd (perform (MkdirAll (ExperimentsDir w (c_cfg c))) w))))"
  by (simp add: runExp_create_def Let_def case_prod_beta)

lemma runFeat_create_exists:
  "err (fst (perform (MkdirAll (ExperimentsDir w (c_cfg c))) w)) = None \<Longrightarrow>
   Status (fst (CheckBranch (c_repoPath c) (c_branch c)
                  (snd (perform (MkdirAll (ExperimentsDir w (c_cfg c))) w)))) \<noteq> BranchNotFound \<Longrightarrow>
   runFeat_create c flags w =
     (Return (Some ''branch already exists''),
      snd (CheckBranch (c_repoPath c) (c_branch c)
             (snd (perform (MkdirAll (ExperimentsDir w (c_cfg c))) w))))"
  by (simp add: runFeat_create_def Let_def case_prod_beta)

lemma example_paths:
  assumes "home w = ''/home/dev''" "BaseDir c = ''~/clade''"
  shows "ExperimentsDir w c = ''/home/dev/clade/experiments''"
    and "StatePath w c = ''/home/dev/clade/state.json''"
  using assms
  by (simp_all add: ExperimentsDir_def StatePath_def GetBaseDir_def ExpandPath_def
      Join_def Clean_def cleanStep_def IsPathSeparator_def)

lemma local_prepare:
  "runExp_prepare (Inr example_config) [''x''] ''api'' [] local_world =
     (Inr example_creation,
      local_world\<lparr>trace := [ConfigSave (example_config\<lparr>LastRepo := ''/work/a/api''\<rparr>)]\<rparr>)"
proof -
  have r: "resolveRepo example_config ''api'' local_world = (Inr ''/work/a/api'', local_world)"
    unfolding local_world_def by (rule example_resolveRepo)
  have v: "isValidExpName ''x''"
    by code_simp
  have h: "home local_world = ''/home/dev''" "files local_world p = NotExist"
     "trace local_world = []" "home (local_world\<lparr>trace := t\<rparr>) = ''/home/dev''" for t p
    by (simp_all add: local_world_def world_of_def)
  have b: "BaseDir (example_config\<lparr>LastRepo := ''/work/a/api''\<rparr>) = ''~/clade''"
    by (simp add: example_config_def)
  show ?thesis
    by (simp add: runExp_prepare_def v r Let_def perform_def h
        example_paths [OF h(1) b] example_paths [OF h(4) b] LoadState_cases GetExperiment_def
        empty_state_def example_dirs GetRepoName_def example_creation_def)
       (simp add: Base_def IsPathSeparator_def)
qed

lemma local_prepare_feat:
  "runFeat_prepare (Inr example_config) [''x''] example_flags local_world =
     (Inr example_creation,
      local_world\<lparr>trace := [ConfigSave (example_config\<lparr>LastRepo := ''/work/a/api''\<rparr>)]\<rparr>)"
proof -
  have r: "resolveRepo example_config ''api'' local_world = (Inr ''/work/a/api'', local_world)"
    unfolding local_world_def by (rule example_resolveRepo)
  have v: "isValidExpName ''x''"
    by code_simp
  have h: "home local_world = ''/home/dev''" "files local_world p = NotExist"
     "trace local_world = []" "home (local_world\<lparr>trace := t\<rparr>) = ''/home/dev''" for t p
    by (simp_all add: local_world_def world_of_def)
  have b: "BaseDir (example_config\<lparr>LastRepo := ''/work/a/api''\<rparr>) = ''~/clade''"
    by (simp add: example_config_def)
  show ?thesis
    by (simp add: runFeat_prepare_def resolveRepoWithPick_def example_flags_def v r Let_def
        perform_def h example_paths [OF h(1) b] example_paths [OF h(4) b] LoadState_cases
        GetExperiment_def empty_state_def example_dirs GetRepoName_def example_creation_def)
       (simp add: Base_def IsPathSeparator_def)
qed

lemma local_create_check:
  "err (fst (perform (MkdirAll d) (local_world\<lparr>trace := t\<rparr>))) = None"
  "Status (fst (CheckBranch ''/work/a/api'' ''exp/x''
                  (snd (perform (MkdirAll d) (local_world\<lparr>trace := t\<rparr>))))) = BranchLocalOnly"
  "Status (fst (CheckBranch ''/work/a/api'' ''exp/x'' (snd (Fetch ''/work/a/api'' local_world))))
     = BranchLocalOnly"
  by (simp_all add: local_world_def world_of_def Fetch_def perform_def CheckBranch_info
      branchExistsLocal_cases branchExistsRemote_cases succeeded_def failed_def Let_def)

text \<open>
  C5. When the check after the fetch gives any status but \<open>BranchNotFound\<close>,
  \<open>CreateWorktreeNew\<close> returns the error "branch '<name>' already exists" in the
  world the check left, so without running \<^verbatim>\<open>git worktree add\<close>. When \<^verbatim>\<open>runExp\<close> or
  \<^verbatim>\<open>runFeat\<close> gets as far as its own check (its preparation ends without returning
  and the experiments directory is made) and the check gives any status but
  \<open>BranchNotFound\<close>, the handler returns the error "branch already exists" in the
  world the check left. From its start to its return it has then created no
  worktree, copied and initialised nothing, written no metadata and not written
  the state, and every state file is as it was.
\<close>

theorem existing_branch_aborts:
  fixes repoPath worktreePath branch expRepoFlag expAgentFlag :: string
    and loaded :: "error + Config" and args :: "string list" and flags :: featFlags
    and w :: world
  shows
   "(Status (fst (CheckBranch repoPath branch (snd (Fetch repoPath w)))) \<noteq> BranchNotFound \<longrightarrow>
       CreateWorktreeNew repoPath worktreePath branch w =
         (Some (''branch '' @ [CHR 0x27] @ branch @ [CHR 0x27] @ '' already exists''),
          snd (CheckBranch repoPath branch (snd (Fetch repoPath w)))) \<and>
       nothing_created w (snd (CreateWorktreeNew repoPath worktreePath branch w))) \<and>
    (\<forall>c w1.
       runExp_prepare loaded args expRepoFlag expAgentFlag w = (Inr c, w1) \<and>
       err (fst (perform (MkdirAll (ExperimentsDir w1 (c_cfg c))) w1)) = None \<and>
       Status (fst (CheckBranch (c_repoPath c) (c_branch c)
                      (snd (perform (MkdirAll (ExperimentsDir w1 (c_cfg c))) w1))))
         \<noteq> BranchNotFound
       \<longrightarrow> runExp loaded args expRepoFlag expAgentFlag w =
             (Return (Some ''branch already exists''),
              snd (CheckBranch (c_repoPath c) (c_branch c)
                     (snd (perform (MkdirAll (ExperimentsDir w1 (c_cfg c))) w1)))) \<and>
           nothing_created w (snd (runExp loaded args expRepoFlag expAgentFlag w))) \<and>
    (\<forall>c w1.
       runFeat_prepare loaded args flags w = (Inr c, w1) \<and>
       err (fst (perform (MkdirAll (ExperimentsDir w1 (c_cfg c))) w1)) = None \<and>
       Status (fst (CheckBranch (c_repoPath c) (c_branch c)
                      (snd (perform (MkdirAll (ExperimentsDir w1 (c_cfg c))) w1))))
         \<noteq> BranchNotFound
       \<longrightarrow> runFeat loaded args flags w =
             (Return (Some ''branch already exists''),
              snd (CheckBranch (c_repoPath c) (c_branch c)
                     (snd (perform (MkdirAll (ExperimentsDir w1 (c_cfg c))) w1)))) \<and>
           nothing_created w (snd (runFeat loaded args flags w)))"
proof -
  have A: "nothing_created w (snd (CreateWorktreeNew repoPath worktreePath branch w))"
    if "Status (fst (CheckBranch repoPath branch (snd (Fetch repoPath w)))) \<noteq> BranchNotFound"
    using that by (simp add: CreateWorktreeNew_exists CheckBranch_quiet Fetch_quiet)
  have tail: "nothing_created w
       (snd (CheckBranch r b (snd (perform (MkdirAll d) w1))))"
    if "nothing_created w w1" for r b d w1
    using that by (intro CheckBranch_quiet perform_quiet) simp_all
  have B: "runExp loaded args expRepoFlag expAgentFlag w =
             (Return (Some ''branch already exists''),
              snd (CheckBranch (c_repoPath c) (c_branch c)
                     (snd (perform (MkdirAll (ExperimentsDir w1 (c_cfg c))) w1)))) \<and>
           nothing_created w (snd (runExp loaded args expRepoFlag expAgentFlag w))"
    if p: "runExp_prepare loaded args expRepoFlag expAgentFlag w = (Inr c, w1)"
      and m: "err (fst (perform (MkdirAll (ExperimentsDir w1 (c_cfg c))) w1)) = None"
      and s: "Status (fst (CheckBranch (c_repoPath c) (c_branch c)
                      (snd (perform (MkdirAll (ExperimentsDir w1 (c_cfg c))) w1))))
         \<noteq> BranchNotFound"
    for c w1
  proof -
    from runExp_prepare_quiet [of w loaded args expRepoFlag expAgentFlag] p
    have "nothing_created w w1" by simp
    then show ?thesis
      by (simp add: runExp_def p runExp_create_exists [OF m s] tail)
  qed
  have C: "runFeat loaded args flags w =
             (Return (Some ''branch already exists''),
              snd (CheckBranch (c_repoPath c) (c_branch c)
                     (snd (perform (MkdirAll (ExperimentsDir w1 (c_cfg c))) w1)))) \<and>
           nothing_created w (snd (runFeat loaded args flags w))"
    if p: "runFeat_prepare loaded args flags w = (Inr c, w1)"
      and m: "err (fst (perform (MkdirAll (ExperimentsDir w1 (c_cfg c))) w1)) = None"
      and s: "Status (fst (CheckBranch (c_repoPath c) (c_branch c)
                      (snd (perform (MkdirAll (ExperimentsDir w1 (c_cfg c))) w1))))
         \<noteq> BranchNotFound"
    for c w1
  proof -
    from runFeat_prepare_quiet [of w loaded args flags] p
    have "nothing_created w w1" by simp
    then show ?thesis
      by (simp add: runFeat_def p runFeat_create_exists [OF m s] tail)
  qed
  from A B C CreateWorktreeNew_exists [of repoPath branch w worktreePath] show ?thesis
    by blast
qed

theorem existing_branch_aborts_witness:
  "CreateWorktreeNew ''/work/a/api'' ''/home/dev/clade/experiments/api-x'' ''exp/x'' local_world =
     (Some (''branch '' @ [CHR 0x27] @ ''exp/x'' @ [CHR 0x27] @ '' already exists''),
      snd (CheckBranch ''/work/a/api'' ''exp/x'' (snd (Fetch ''/work/a/api'' local_world)))) \<and>
   nothing_created local_world
     (snd (CreateWorktreeNew ''/work/a/api'' ''/home/dev/clade/experiments/api-x'' ''exp/x''
             local_world)) \<and>
   fst (runExp (Inr example_config) [''x''] ''api'' [] local_world) =
     Return (Some ''branch already exists'') \<and>
   nothing_created local_world (snd (runExp (Inr example_config) [''x''] ''api'' [] local_world)) \<and>
   fst (runFeat (Inr example_config) [''x''] example_flags local_world) =
     Return (Some ''branch already exists'') \<and>
   nothing_created local_world
     (snd (runFeat (Inr example_config) [''x''] example_flags local_world))"
proof -
  note T = existing_branch_aborts [where w = local_world and repoPath = "''/work/a/api''"
      and worktreePath = "''/home/dev/clade/experiments/api-x''" and branch = "''exp/x''"
      and loaded = "Inr example_config" and args = "[''x'']" and expRepoFlag = "''api''"
      and expAgentFlag = "[]" and flags = example_flags]
  have c: "c_cfg example_creation = example_config\<lparr>LastRepo := ''/work/a/api''\<rparr>"
    "c_repoPath example_creation = ''/work/a/api''" "c_branch example_creation = ''exp/x''"
    by (simp_all add: example_creation_def)
  have 1: "CreateWorktreeNew ''/work/a/api'' ''/home/dev/clade/experiments/api-x'' ''exp/x''
             local_world =
     (Some (''branch '' @ [CHR 0x27] @ ''exp/x'' @ [CHR 0x27] @ '' already exists''),
      snd (CheckBranch ''/work/a/api'' ''exp/x'' (snd (Fetch ''/work/a/api'' local_world)))) \<and>
   nothing_created local_world
     (snd (CreateWorktreeNew ''/work/a/api'' ''/home/dev/clade/experiments/api-x'' ''exp/x''
             local_world))"
    by (rule T [THEN conjunct1, THEN mp]) (simp add: local_create_check)
  have 2: "runExp (Inr example_config) [''x''] ''api'' [] local_world =
      (Return (Some ''branch already exists''),
       snd (CheckBranch (c_repoPath example_creation) (c_branch example_creation)
         (snd (perform (MkdirAll (ExperimentsDir
            (local_world\<lparr>trace := [ConfigSave (example_config\<lparr>LastRepo := ''/work/a/api''\<rparr>)]\<rparr>)
            (c_cfg example_creation)))
          (local_world\<lparr>trace := [ConfigSave (example_config\<lparr>LastRepo := ''/work/a/api''\<rparr>)]\<rparr>))))) \<and>
     nothing_created local_world (snd (runExp (Inr example_config) [''x''] ''api'' [] local_world))"
    by (rule T [THEN conjunct2, THEN conjunct1, rule_format])
       (simp add: local_prepare c local_create_check)
  have 3: "runFeat (Inr example_config) [''x''] example_flags local_world =
      (Return (Some ''branch already exists''),
       snd (CheckBranch (c_repoPath example_creation) (c_branch example_creation)
         (snd (perform (MkdirAll (ExperimentsDir
            (local_world\<lparr>trace := [ConfigSave (example_config\<lparr>LastRepo := ''/work/a/api''\<rparr>)]\<rparr>)
            (c_cfg example_creation)))
          (local_world\<lparr>trace := [ConfigSave (example_config\<lparr>LastRepo := ''/work/a/api''\<rparr>)]\<rparr>))))) \<and>
     nothing_created local_world
       (snd (runFeat (Inr example_config) [''x''] example_flags local_world))"
    by (rule T [THEN conjunct2, THEN conjunct2, rule_format])
       (simp add: local_prepare_feat c local_create_check)
  have e2: "fst (runExp (Inr example_config) [''x''] ''api'' [] local_world) =
     Return (Some ''branch already exists'')"
    using 2 [THEN conjunct1] by simp
  have e3: "fst (runFeat (Inr example_config) [''x''] example_flags local_world) =
     Return (Some ''branch already exists'')"
    using 3 [THEN conjunct1] by simp
  show ?thesis
    by (intro conjI) (rule 1 [THEN conjunct1] 1 [THEN conjunct2] e2 2 [THEN conjunct2] e3
        3 [THEN conjunct2])+
qed

end
